theory Spec2Isabelle
  imports Complex_Main
begin

section \<open>Python strings and the process environment\<close>

text \<open>
  A Python \<open>str\<close> is a sequence of Unicode code points, and \<open>len\<close> counts code points.
  The generator writes characters outside ASCII into its passwords, so a string is
  modelled as a list of code points; \<open>str\<close> embeds an ASCII literal.
\<close>

type_synonym pstr = "nat list"

definition str :: "string \<Rightarrow> pstr" where
  "str s = map of_char s"

text \<open>
  The Unicode database of the interpreter is not part of the repository. ASCII is
  modelled exactly; so are the symbols the program itself writes that have no case and
  belong to no character class (the arrows, the sine wave 8767 and the summation sign
  8721). Every other code point is classified by the tables of the environment.
  \<open>uc_lower\<close> receives the whole string and an index because \<open>str.lower\<close> is context
  sensitive (final sigma).
\<close>

record unicode_db =
  uc_isalpha :: "nat \<Rightarrow> bool"
  uc_isword :: "nat \<Rightarrow> bool"
  uc_isdigit :: "nat \<Rightarrow> bool"
  uc_lower :: "pstr \<Rightarrow> nat \<Rightarrow> pstr"
  uc_upper :: "nat \<Rightarrow> pstr"

record datetime =
  dt_month :: nat
  dt_day :: nat
  dt_weekday :: nat
  dt_hour :: nat
  dt_minute :: nat
  dt_second :: nat
  dt_microsecond :: nat

text \<open>The statements of the \<open>try\<close> block of \<open>generate_password\<close>, in order.\<close>

datatype stage =
  Extract_analysis | Extract_summary | Combine | Effectiveness | Modifiers | Assemble
  | Assess | Package

text \<open>
  Everything the program reads from outside itself: the Unicode tables, the two hash
  functions of \<open>hashlib\<close> (as maps from the text to the hexadecimal digest), the iteration
  order of a \<open>set\<close> of strings (Python leaves it unspecified; it depends on the salted
  string hash and on what was inserted), the exception a library call raises inside a
  statement of the \<open>try\<close> block, the clock (one value per reading) and the random source
  (one raw number per draw, shared by \<open>random\<close> and \<open>secrets\<close>).
\<close>

record world =
  unicode :: unicode_db
  sha256_hex :: "pstr \<Rightarrow> pstr"
  md5_hex :: "pstr \<Rightarrow> pstr"
  set_order :: "pstr list \<Rightarrow> pstr \<Rightarrow> nat"
  fault :: "stage \<Rightarrow> pstr option"
  clock :: "nat \<Rightarrow> datetime"
  ticks :: nat
  draws :: "nat \<Rightarrow> nat"
  cursor :: nat

subsection \<open>Clock and random source\<close>

text \<open>
  \<open>datetime.now()\<close>: the clock yields the fields of the moment; reading it brings each
  field into the range a \<open>datetime\<close> keeps it in, so that an hour is below 24.
\<close>

definition datetime_of :: "datetime \<Rightarrow> datetime" where
  "datetime_of t =
     \<lparr> dt_month = dt_month t mod 12 + 1,
       dt_day = dt_day t mod 31 + 1,
       dt_weekday = dt_weekday t mod 7,
       dt_hour = dt_hour t mod 24,
       dt_minute = dt_minute t mod 60,
       dt_second = dt_second t mod 60,
       dt_microsecond = dt_microsecond t mod 1000000 \<rparr>"

definition datetime_now :: "world \<Rightarrow> datetime \<times> world" where
  "datetime_now w = (datetime_of (clock w (ticks w)), w\<lparr>ticks := Suc (ticks w)\<rparr>)"

definition draw :: "world \<Rightarrow> nat \<times> world" where
  "draw w = (draws w (cursor w), w\<lparr>cursor := Suc (cursor w)\<rparr>)"

text \<open>\<open>random.choice(xs)\<close> on a non-empty literal list.\<close>

definition random_choice :: "world \<Rightarrow> 'a list \<Rightarrow> 'a \<times> world" where
  "random_choice w xs = (case draw w of (r, w') \<Rightarrow> (xs ! (r mod length xs), w'))"

text \<open>\<open>random.randint(lo, hi)\<close>, both ends included.\<close>

definition random_randint :: "world \<Rightarrow> nat \<Rightarrow> nat \<Rightarrow> nat \<times> world" where
  "random_randint w lo hi = (case draw w of (r, w') \<Rightarrow> (lo + r mod (hi - lo + 1), w'))"

text \<open>
  \<open>random.random() < p\<close> for \<open>p\<close> given in hundredths: the draw is a 53-bit fraction in
  \<open>[0, 1)\<close>.
\<close>

definition random_below :: "world \<Rightarrow> nat \<Rightarrow> bool \<times> world" where
  "random_below w p =
     (case draw w of (r, w') \<Rightarrow> (100 * (r mod 2 ^ 53) < p * 2 ^ 53, w'))"

definition hex_digit :: "nat \<Rightarrow> nat" where
  "hex_digit d = (if d < 10 then 48 + d else 87 + d)"

definition hex_byte :: "nat \<Rightarrow> pstr" where
  "hex_byte b = [hex_digit (b div 16), hex_digit (b mod 16)]"

text \<open>\<open>secrets.token_hex(n)\<close>: \<open>n\<close> random bytes, two hexadecimal digits each.\<close>

fun token_hex :: "world \<Rightarrow> nat \<Rightarrow> pstr \<times> world" where
  "token_hex w 0 = ([], w)"
| "token_hex w (Suc n) =
     (case draw w of (r, w') \<Rightarrow>
        (case token_hex w' n of (h, w'') \<Rightarrow> (hex_byte (r mod 256) @ h, w'')))"

subsection \<open>Characters and strings\<close>

definition is_ascii_lower :: "nat \<Rightarrow> bool" where
  "is_ascii_lower c \<longleftrightarrow> 97 \<le> c \<and> c \<le> 122"

definition is_ascii_upper :: "nat \<Rightarrow> bool" where
  "is_ascii_upper c \<longleftrightarrow> 65 \<le> c \<and> c \<le> 90"

definition is_ascii_digit :: "nat \<Rightarrow> bool" where
  "is_ascii_digit c \<longleftrightarrow> 48 \<le> c \<and> c \<le> 57"

definition caseless_symbol :: "nat \<Rightarrow> bool" where
  "caseless_symbol c \<longleftrightarrow> c \<in> set [8767, 8635, 8634, 8597, 8593, 8595, 8594, 8721]"

text \<open>\<open>c.isalpha()\<close> for one character.\<close>

definition py_isalpha :: "unicode_db \<Rightarrow> nat \<Rightarrow> bool" where
  "py_isalpha U c =
     (if c < 128 then is_ascii_lower c \<or> is_ascii_upper c
      else \<not> caseless_symbol c \<and> uc_isalpha U c)"

text \<open>The regular-expression class \<open>\d\<close> on a \<open>str\<close> pattern.\<close>

definition re_digit :: "unicode_db \<Rightarrow> nat \<Rightarrow> bool" where
  "re_digit U c =
     (if c < 128 then is_ascii_digit c else \<not> caseless_symbol c \<and> uc_isdigit U c)"

text \<open>The class \<open>\w\<close>.\<close>

definition re_word :: "unicode_db \<Rightarrow> nat \<Rightarrow> bool" where
  "re_word U c =
     (if c < 128 then is_ascii_lower c \<or> is_ascii_upper c \<or> is_ascii_digit c \<or> c = 95
      else \<not> caseless_symbol c \<and> uc_isword U c)"

text \<open>The class \<open>\s\<close>, which is also what \<open>str.split()\<close> splits at.\<close>

definition re_space :: "nat \<Rightarrow> bool" where
  "re_space c \<longleftrightarrow>
     (9 \<le> c \<and> c \<le> 13) \<or> (28 \<le> c \<and> c \<le> 32) \<or> c = 133 \<or> c = 160 \<or> c = 5760
     \<or> (8192 \<le> c \<and> c \<le> 8202) \<or> c = 8232 \<or> c = 8233 \<or> c = 8239 \<or> c = 8287
     \<or> c = 12288"

definition py_upper_char :: "unicode_db \<Rightarrow> nat \<Rightarrow> pstr" where
  "py_upper_char U c =
     (if is_ascii_lower c then [c - 32]
      else if c < 128 \<or> caseless_symbol c then [c]
      else uc_upper U c)"

definition py_lower_at :: "unicode_db \<Rightarrow> pstr \<Rightarrow> nat \<Rightarrow> pstr" where
  "py_lower_at U s i =
     (let c = s ! i in
      if is_ascii_upper c then [c + 32]
      else if c < 128 \<or> caseless_symbol c then [c]
      else uc_lower U s i)"

text \<open>\<open>s.lower()\<close> and \<open>s.upper()\<close>.\<close>

definition py_lower :: "unicode_db \<Rightarrow> pstr \<Rightarrow> pstr" where
  "py_lower U s = concat (map (py_lower_at U s) [0..<length s])"

definition py_upper :: "unicode_db \<Rightarrow> pstr \<Rightarrow> pstr" where
  "py_upper U s = concat (map (py_upper_char U) s)"

text \<open>\<open>str(n)\<close> for a non-negative integer.\<close>

function py_str_nat :: "nat \<Rightarrow> pstr" where
  "py_str_nat n = (if n < 10 then [48 + n] else py_str_nat (n div 10) @ [48 + n mod 10])"
  by pat_completeness auto
termination
  by (relation "measure id") auto

declare py_str_nat.simps [simp del]

fun starts_with :: "pstr \<Rightarrow> pstr \<Rightarrow> bool" where
  "starts_with s [] = True"
| "starts_with [] (p # ps) = False"
| "starts_with (c # cs) (p # ps) = (c = p \<and> starts_with cs ps)"

text \<open>\<open>p in s\<close> for strings: \<open>p\<close> occurs in \<open>s\<close> as a contiguous run.\<close>

fun py_in :: "pstr \<Rightarrow> pstr \<Rightarrow> bool" where
  "py_in p [] = (p = [])"
| "py_in p (c # cs) = (starts_with (c # cs) p \<or> py_in p cs)"

text \<open>\<open>re.search\<close> of a pattern that is one character class.\<close>

definition search_class :: "(nat \<Rightarrow> bool) \<Rightarrow> pstr \<Rightarrow> bool" where
  "search_class cls s = list_ex cls s"

text \<open>The class \<open>[!@#$%^&*()_+\-=\[\]{}|;:,.<>?]\<close>.\<close>

definition punctuation :: "nat \<Rightarrow> bool" where
  "punctuation c \<longleftrightarrow> c \<in> set (str ''!@#$%^&*()_+-=[]{}|;:,.<>?'')"

section \<open>Complexity enforcement\<close>

text \<open>The loop \<open>while len(password) < n: password += secrets.token_hex(1)\<close>.\<close>

function pad_hex :: "nat \<Rightarrow> pstr \<Rightarrow> world \<Rightarrow> pstr \<times> world" where
  "pad_hex n password w =
     (if length password < n
      then (case token_hex w 1 of (h, w') \<Rightarrow> pad_hex n (password @ h) w')
      else (password, w))"
  by pat_completeness auto
termination
  by (relation "measure (\<lambda>(n, password, w). n - length password)")
    (auto simp: hex_byte_def split: prod.splits)

declare pad_hex.simps [simp del]

definition ensure_complexity :: "world \<Rightarrow> pstr \<Rightarrow> pstr \<times> world" where
  "ensure_complexity w password =
     (let U = unicode w;
          (p1, w1) =
            (if \<not> search_class punctuation password
             then (case random_choice w (str ''!@#$%'') of (c, w') \<Rightarrow> (password @ [c], w'))
             else (password, w));
          (p2, w2) =
            (if \<not> search_class (re_digit U) p1
             then (case random_randint w1 0 9 of (d, w') \<Rightarrow> (p1 @ py_str_nat d, w'))
             else (p1, w1));
          p3 =
            (if \<not> search_class is_ascii_upper p2
             then (case p2 of [] \<Rightarrow> p2 | c # cs \<Rightarrow> py_upper_char U c @ cs)
             else p2);
          (p4, w4) = pad_hex 12 p3 w2;
          p5 = (if length p4 > 20 then take 20 p4 else p4)
      in (p5, w4))"

datatype level = Low | Medium | High

text \<open>
  The dictionaries of \<open>generate_contextual_modifiers\<close>. A key that only one branch of
  the code writes is an optional field; \<open>.get(key, default)\<close> on it is a case
  distinction. The keys every branch writes are plain fields, so the defaults the code
  gives for them are never taken.
\<close>

record movement_entropy =
  pattern_hash :: pstr
  complexity :: level
  movement_types :: "nat option"
  me_signature :: "pstr option"

record behavioral_signature =
  complexity_score :: pstr
  bs_signature :: "pstr option"
  confidence :: level
  features_detected :: "nat option"

record contextual_modifiers =
  temporal :: pstr
  movement_entropy :: movement_entropy
  behavioral_signature :: behavioral_signature
  session :: pstr
  compound_modifier :: pstr

text \<open>The two character classes of \<open>ensure_advanced_complexity\<close>, by code point: the kinetic markers (capital omega, sine wave, arrows) and the Greek markers.\<close>

definition kinetic_marker :: "nat \<Rightarrow> bool" where
  "kinetic_marker c \<longleftrightarrow> c \<in> set [937, 8767, 8635, 8634, 8597, 8593, 8595, 8594]"

definition greek_marker :: "nat \<Rightarrow> bool" where
  "greek_marker c \<longleftrightarrow> c \<in> set [920, 8721, 936, 945, 946, 947, 948, 949]"

definition ensure_advanced_complexity ::
  "world \<Rightarrow> pstr \<Rightarrow> contextual_modifiers \<Rightarrow> pstr \<times> world" where
  "ensure_advanced_complexity w password cm =
     (let (p0, w0) = ensure_complexity w password;
          behavioral_confidence = confidence (behavioral_signature cm);
          (p1, w1) =
            (if behavioral_confidence = High \<and> \<not> search_class kinetic_marker p0
             then (case random_choice w0 [937, 8767, 8635] of (c, w') \<Rightarrow> (p0 @ [c], w'))
             else (p0, w0));
          (p2, w2) =
            (if \<not> search_class greek_marker p1
             then (case random_choice w1 [920, 8721, 936] of (c, w') \<Rightarrow> (p1 @ [c], w'))
             else (p1, w1));
          movement_complexity = complexity (movement_entropy cm);
          min_length =
            (if movement_complexity = High then 16
             else if movement_complexity = Medium then 14 else 12);
          (p3, w3) = pad_hex min_length p2 w2;
          p4 = (if length p3 > 24 then take 24 p3 else p3)
      in (p4, w3))"

section \<open>Strength assessment\<close>

datatype strength = Weak | Medium_strength | Strong | Very_strong | Exceptional

record analysis =
  factors :: "pstr list"
  recommendations :: "pstr list"

record strength_report =
  sr_strength :: strength
  score :: int
  max_score :: int
  sr_analysis :: analysis
  character_types :: nat

text \<open>The class of biometric markers that the assessment looks for.\<close>

definition biometric_marker :: "nat \<Rightarrow> bool" where
  "biometric_marker c \<longleftrightarrow>
     c \<in> set [937, 8767, 8635, 8634, 8597, 8593, 8595, 8594, 920, 936, 945, 946, 947, 948, 949]"

text \<open>
  \<open>re.search(r'(.)\1{2,}', s)\<close>: some character other than a newline stands three times
  in a row.
\<close>

fun repeated_run :: "pstr \<Rightarrow> bool" where
  "repeated_run (a # b # c # cs) = ((a \<noteq> 10 \<and> a = b \<and> b = c) \<or> repeated_run (b # c # cs))"
| "repeated_run cs = False"

definition sequential_patterns :: "pstr list" where
  "sequential_patterns =
     map str [''012'', ''123'', ''234'', ''345'', ''456'', ''567'', ''678'', ''789'', ''890'',
              ''abc'', ''def'', ''ghi'']"

text \<open>
  The comparisons \<open>unique_chars >= len(password) * 0.8\<close> and \<open>... * 0.6\<close> are made in
  floating point; the product is the exact one rounded, which changes no comparison with
  an integer, so they are written over the integers.
\<close>

definition assess_password_strength ::
  "world \<Rightarrow> pstr \<Rightarrow> contextual_modifiers option \<Rightarrow> strength_report" where
  "assess_password_strength w password contextual_data =
     (let U = unicode w;
          n = length password;
          (s1, f1, r1) =
            (if n \<ge> 16 then (3, [str ''Excellent length (16+ chars)''], [])
             else if n \<ge> 12 then (2, [str ''Good length (12+ chars)''], [])
             else (0, [], [str ''Increase length to 12+ characters'']));
          lower = search_class is_ascii_lower password;
          upper = search_class is_ascii_upper password;
          digit = search_class (re_digit U) password;
          punct = search_class punctuation password;
          s2 = s1 + (if lower then 1 else 0) + (if upper then 1 else 0)
                  + (if digit then 1 else 0) + (if punct then 2 else 0);
          char_types = (if lower then 1 else 0) + (if upper then 1 else 0)
                  + (if digit then 1 else 0) + (if punct then 1 else (0::nat));
          (s3, f3) =
            (if search_class biometric_marker password
             then (s2 + 3, f1 @ [str ''Biometric Unicode characters detected''])
             else (s2, f1));
          (s4, f4) =
            (case contextual_data of
               None \<Rightarrow> (s3, f3)
             | Some cd \<Rightarrow>
                 (let behavioral_confidence = confidence (behavioral_signature cd);
                      movement_complexity = complexity (movement_entropy cd);
                      (sa, fa) =
                        (if behavioral_confidence = High
                         then (s3 + 2, f3 @ [str ''High behavioral confidence''])
                         else if behavioral_confidence = Medium
                         then (s3 + 1, f3 @ [str ''Medium behavioral confidence''])
                         else (s3, f3))
                  in if movement_complexity = High
                     then (sa + 2, fa @ [str ''High movement complexity''])
                     else if movement_complexity = Medium then (sa + 1, fa)
                     else (sa, fa)));
          unique_chars = card (set password);
          (s5, f5) =
            (if 10 * unique_chars \<ge> 8 * n
             then (s4 + 2, f4 @ [str ''High character uniqueness''])
             else if 10 * unique_chars \<ge> 6 * n then (s4 + 1, f4)
             else (s4, f4));
          (s6, r6) =
            (if repeated_run password
             then (s5 - 1, r1 @ [str ''Reduce character repetition''])
             else (s5, r1));
          (s7, r7) =
            (if list_ex (\<lambda>p. py_in p (py_lower U password)) sequential_patterns
             then (s6 - 2, r6 @ [str ''Avoid sequential patterns''])
             else (s6, r6));
          strength =
            (if s7 \<ge> 12 then Exceptional
             else if s7 \<ge> 9 then Very_strong
             else if s7 \<ge> 6 then Strong
             else if s7 \<ge> 4 then Medium_strength
             else Weak)
      in \<lparr> sr_strength = strength, score = s7, max_score = 15,
           sr_analysis = \<lparr> factors = f5, recommendations = r7 \<rparr>,
           character_types = char_types \<rparr>)"

section \<open>Regular expressions\<close>

text \<open>
  The patterns of the extraction engine are written in the syntax of the module \<open>re\<close>,
  which is not part of the repository. They are embedded as syntax trees and matched by
  a backtracking matcher that lists the ways a pattern matches at a position, in the
  order \<open>re\<close> tries them: alternatives from left to right, repetitions greedily. The
  head of the list is the match \<open>re\<close> reports.
\<close>

datatype rx =
    Lit pstr
  | WordCh
  | SpaceCh
  | Bound
  | Seq rx rx
  | Alt rx rx
  | Rep nat "nat option" rx
  | Group nat rx

type_synonym caps = "(nat \<times> nat \<times> nat) list"

text \<open>
  A pattern character against a text character. With \<open>re.IGNORECASE\<close> a lower-case ASCII
  letter of the pattern also matches its upper-case form, and \<open>i\<close>, \<open>s\<close> and \<open>k\<close> match the
  four letters outside ASCII that fold to them (304, 305, 383, 8490).
\<close>

definition char_match :: "bool \<Rightarrow> nat \<Rightarrow> nat \<Rightarrow> bool" where
  "char_match ic p c \<longleftrightarrow>
     c = p \<or>
     (ic \<and> ((is_ascii_lower p \<and> c = p - 32) \<or> (p = 105 \<and> (c = 304 \<or> c = 305))
            \<or> (p = 115 \<and> c = 383) \<or> (p = 107 \<and> c = 8490)))"

fun lit_match :: "bool \<Rightarrow> pstr \<Rightarrow> pstr \<Rightarrow> bool" where
  "lit_match ic [] s = True"
| "lit_match ic (p # ps) [] = False"
| "lit_match ic (p # ps) (c # cs) = (char_match ic p c \<and> lit_match ic ps cs)"

text \<open>\<open>\b\<close>: exactly one of the characters before and after the position is a word character.\<close>

definition word_boundary :: "unicode_db \<Rightarrow> pstr \<Rightarrow> nat \<Rightarrow> bool" where
  "word_boundary U s i \<longleftrightarrow>
     (0 < i \<and> i \<le> length s \<and> re_word U (s ! (i - 1))) \<noteq> (i < length s \<and> re_word U (s ! i))"

text \<open>
  \<open>rmatch\<close> lists the matches of a pattern at position \<open>i\<close>; \<open>rep_match\<close> is the greedy
  repetition of a pattern, at least \<open>lo\<close> and at most \<open>hi\<close> rounds, one more round tried
  before stopping. An unbounded repetition runs at most once per remaining character and
  once more: every repeated part of the patterns below consumes a character.
\<close>

function rmatch ::
  "unicode_db \<Rightarrow> bool \<Rightarrow> rx \<Rightarrow> pstr \<Rightarrow> nat \<Rightarrow> caps \<Rightarrow> (nat \<times> caps) list"
and rep_match ::
  "unicode_db \<Rightarrow> bool \<Rightarrow> rx \<Rightarrow> pstr \<Rightarrow> nat \<Rightarrow> nat \<Rightarrow> nat \<Rightarrow> caps \<Rightarrow> (nat \<times> caps) list"
where
  "rmatch U ic (Lit p) s i c =
     (if lit_match ic p (drop i s) then [(i + length p, c)] else [])"
| "rmatch U ic WordCh s i c =
     (if i < length s \<and> re_word U (s ! i) then [(Suc i, c)] else [])"
| "rmatch U ic SpaceCh s i c =
     (if i < length s \<and> re_space (s ! i) then [(Suc i, c)] else [])"
| "rmatch U ic Bound s i c = (if word_boundary U s i then [(i, c)] else [])"
| "rmatch U ic (Seq a b) s i c =
     concat (map (\<lambda>p. rmatch U ic b s (fst p) (snd p)) (rmatch U ic a s i c))"
| "rmatch U ic (Alt a b) s i c = rmatch U ic a s i c @ rmatch U ic b s i c"
| "rmatch U ic (Rep lo hi r) s i c =
     rep_match U ic r s lo
       (case hi of None \<Rightarrow> lo + (length s - i) + 1 | Some h \<Rightarrow> h) i c"
| "rmatch U ic (Group k r) s i c =
     map (\<lambda>p. (fst p, (k, i, fst p) # snd p)) (rmatch U ic r s i c)"
| "rep_match U ic r s lo 0 i c = (if lo = 0 then [(i, c)] else [])"
| "rep_match U ic r s lo (Suc hi) i c =
     concat (map (\<lambda>p. rep_match U ic r s (lo - 1) hi (fst p) (snd p)) (rmatch U ic r s i c))
     @ (if lo = 0 then [(i, c)] else [])"
  by pat_completeness auto
termination
  by (relation "inv_image (less_than <*lex*> less_than) (\<lambda>x. case x of
        Inl (U, ic, r, s, i, c) \<Rightarrow> (2 * size r, 0)
      | Inr (U, ic, r, s, lo, hi, i, c) \<Rightarrow> (2 * size r + 1, hi))") auto

fun ngroups :: "rx \<Rightarrow> nat" where
  "ngroups (Seq a b) = ngroups a + ngroups b"
| "ngroups (Alt a b) = ngroups a + ngroups b"
| "ngroups (Rep lo hi r) = ngroups r"
| "ngroups (Group k r) = Suc (ngroups r)"
| "ngroups r = 0"

definition slice :: "pstr \<Rightarrow> nat \<Rightarrow> nat \<Rightarrow> pstr" where
  "slice s i j = take (j - i) (drop i s)"

text \<open>
  What \<open>re.findall\<close> reports for a match from \<open>i\<close> to \<open>j\<close>: the matched text when the
  pattern has no group, else the texts of its groups 1 to n (a group that took no part
  gives the empty string). The list has one entry where Python gives a string and n
  entries where it gives an n-tuple.
\<close>

definition match_item :: "rx \<Rightarrow> pstr \<Rightarrow> nat \<Rightarrow> nat \<Rightarrow> caps \<Rightarrow> pstr list" where
  "match_item r s i j c =
     (if ngroups r = 0 then [slice s i j]
      else map (\<lambda>k. case map_of c k of None \<Rightarrow> [] | Some (a, b) \<Rightarrow> slice s a b)
             [1..<Suc (ngroups r)])"

text \<open>
  The scan of \<open>re.findall\<close>: the leftmost match, then on from its end; after a failure or
  an empty match, on from the next position.
\<close>

function findall_from ::
  "unicode_db \<Rightarrow> bool \<Rightarrow> rx \<Rightarrow> pstr \<Rightarrow> nat \<Rightarrow> pstr list list" where
  "findall_from U ic r s i =
     (if length s < i then []
      else (case rmatch U ic r s i [] of
              [] \<Rightarrow> findall_from U ic r s (Suc i)
            | (j, c) # rest \<Rightarrow>
                match_item r s i j c # findall_from U ic r s (if i < j then j else Suc i)))"
  by pat_completeness auto
termination
  by (relation "measure (\<lambda>(U, ic, r, s, i). Suc (length s) - i)") auto

declare findall_from.simps [simp del]

definition findall :: "unicode_db \<Rightarrow> bool \<Rightarrow> rx \<Rightarrow> pstr \<Rightarrow> pstr list list" where
  "findall U ic r s = findall_from U ic r s 0"

text \<open>Pattern building: a sequence, an alternation of literal words, \<open>x+\<close>, \<open>x?\<close>.\<close>

fun seqs :: "rx list \<Rightarrow> rx" where
  "seqs [] = Lit []"
| "seqs [r] = r"
| "seqs (r # rs) = Seq r (seqs rs)"

fun alts :: "rx list \<Rightarrow> rx" where
  "alts [] = Lit []"
| "alts [r] = r"
| "alts (r # rs) = Alt r (alts rs)"

definition words :: "string list \<Rightarrow> rx" where
  "words ws = alts (map (\<lambda>w. Lit (str w)) ws)"

text \<open>\<open>stem\<close> followed by an optional \<open>s\<close>, as in \<open>moves?\<close>.\<close>

definition plurals :: "string list \<Rightarrow> rx" where
  "plurals ws = alts (map (\<lambda>w. Seq (Lit (str w)) (Rep 0 (Some 1) (Lit (str ''s'')))) ws)"

definition plus :: "rx \<Rightarrow> rx" where
  "plus r = Rep 1 None r"

section \<open>Semantic extraction\<close>

text \<open>
  Iterating over a \<open>set\<close> built by inserting the strings \<open>xs\<close>: each distinct string
  once, in the order the environment ranks them. \<open>list(set(xs))\<close> is this list.
\<close>

definition py_set_iter :: "world \<Rightarrow> pstr list \<Rightarrow> pstr list" where
  "py_set_iter w xs = sort_key (set_order w xs) (remdups xs)"

text \<open>\<open>s.split()\<close>: the maximal runs of characters that are not white space.\<close>

fun split_ws :: "pstr \<Rightarrow> pstr \<Rightarrow> pstr list" where
  "split_ws cur [] = (if cur = [] then [] else [cur])"
| "split_ws cur (c # cs) =
     (if re_space c then (if cur = [] then split_ws [] cs else cur # split_ws [] cs)
      else split_ws (cur @ [c]) cs)"

definition py_split :: "pstr \<Rightarrow> pstr list" where
  "py_split s = split_ws [] s"

definition ends_with :: "pstr \<Rightarrow> pstr \<Rightarrow> bool" where
  "ends_with s p = starts_with (rev s) (rev p)"

text \<open>\<open>s.isalpha()\<close>: at least one character, and all of them alphabetic.\<close>

definition py_str_isalpha :: "unicode_db \<Rightarrow> pstr \<Rightarrow> bool" where
  "py_str_isalpha U s \<longleftrightarrow> s \<noteq> [] \<and> list_all (py_isalpha U) s"

record semantic_elements =
  actions :: "pstr list"
  descriptors :: "pstr list"
  qualifiers :: "pstr list"
  full_text :: pstr

text \<open>The tables of \<open>__init__\<close> that extraction reads, in the order of the source.\<close>

definition movement_patterns :: "rx list" where
  "movement_patterns =
     [seqs [Bound, Group 1 (Seq (plus WordCh) (Lit (str ''ing''))), Bound],
      seqs [Bound, Group 1 (Seq (plus WordCh) (Lit (str ''ed''))), Bound],
      seqs [Bound, Group 1 (plurals [''move'', ''step'', ''turn'', ''bend'', ''lift'', ''wave'',
                                     ''raise'', ''lower'']), Bound],
      seqs [Bound, Group 1 (plurals [''swing'', ''rotate'', ''extend'', ''stretche'', ''balance'',
                                     ''gesture'']), Bound],
      seqs [Bound, Group 1 (words [''moving'', ''walking'', ''running'', ''jumping'', ''reaching'',
                                   ''pointing'', ''waving'']), Bound],
      seqs [Bound, Group 1 (words [''turning'', ''bending'', ''stretching'', ''lifting'',
                                   ''lowering'', ''raising'']), Bound],
      seqs [Bound, Group 1 (words [''swinging'', ''rotating'', ''extending'', ''balancing'',
                                   ''stepping'', ''gesturing'']), Bound]]"

definition body_parts :: "pstr list" where
  "body_parts = map str [''arm'', ''hand'', ''leg'', ''foot'', ''head'', ''torso'', ''body'',
                         ''shoulder'', ''knee'', ''elbow'']"

definition directions :: "pstr list" where
  "directions = map str [''left'', ''right'', ''up'', ''down'', ''forward'', ''backward'',
                         ''above'', ''below'', ''side'']"

definition intensities :: "pstr list" where
  "intensities = map str [''gentle'', ''rapid'', ''slow'', ''quick'', ''smooth'', ''abrupt'',
                          ''rhythmic'', ''steady'']"

text \<open>
  The pattern built for a body part:
  \<open>\b\w+\b(?:\s+\w+){0,4}\s+PART|\bPART\b(?:\s+\w+){0,4}\s+\w+ing\b\<close>.
\<close>

definition body_part_pattern :: "pstr \<Rightarrow> rx" where
  "body_part_pattern body_part =
     Alt (seqs [Bound, plus WordCh, Bound,
                Rep 0 (Some 4) (Seq (plus SpaceCh) (plus WordCh)), plus SpaceCh,
                Lit body_part])
         (seqs [Bound, Lit body_part, Bound,
                Rep 0 (Some 4) (Seq (plus SpaceCh) (plus WordCh)), plus SpaceCh,
                plus WordCh, Lit (str ''ing''), Bound])"

definition near_body_part :: "unicode_db \<Rightarrow> pstr \<Rightarrow> pstr \<Rightarrow> pstr list" where
  "near_body_part U text body_part =
     (if py_in body_part text
      then filter (\<lambda>word. ends_with word (str ''ing'')
                     \<or> word \<in> set (map str [''moves'', ''turns'', ''lifts'', ''waves'']))
             (concat (map py_split (concat (findall U False (body_part_pattern body_part) text))))
      else [])"

definition extract_actions_dynamically :: "world \<Rightarrow> pstr \<Rightarrow> pstr list" where
  "extract_actions_dynamically w text =
     (let U = unicode w;
          by_pattern =
            concat (map (\<lambda>pattern.
                map (py_lower U)
                  (filter (\<lambda>match. length match > 2) (concat (findall U True pattern text))))
              movement_patterns);
          by_body_part = concat (map (near_body_part U text) body_parts);
          actions = py_set_iter w (by_pattern @ by_body_part);
          filtered_actions =
            filter (\<lambda>action. length action \<ge> 3 \<and> py_str_isalpha U action
                      \<and> (list_ex (ends_with action) (map str [''ing'', ''ed''])
                         \<or> list_ex (\<lambda>root. py_in root action)
                              (map str [''move'', ''turn'', ''lift'', ''wave'', ''step''])))
              actions
      in py_set_iter w filtered_actions)"

definition spatial_patterns :: "rx list" where
  "spatial_patterns =
     [seqs [Bound,
            Group 1 (alts [Lit (str ''above''), Lit (str ''below''), Lit (str ''beside''),
                           Lit (str ''near''), Lit (str ''against''),
                           Seq (Lit (str ''toward'')) (Rep 0 (Some 1) (Lit (str ''s'')))]),
            plus SpaceCh, plus WordCh],
      seqs [Bound, Group 1 (words [''upward'', ''downward'', ''sideways'', ''clockwise'',
                                   ''counter-clockwise'']), Bound],
      seqs [Bound, Group 1 (words [''horizontal'', ''vertical'', ''diagonal'', ''circular'']),
            Bound]]"

definition extract_contextual_descriptors :: "world \<Rightarrow> pstr \<Rightarrow> pstr list" where
  "extract_contextual_descriptors w text =
     (let U = unicode w;
          terms = filter (\<lambda>term. py_in term text) (body_parts @ directions @ intensities);
          spatial = concat (map (\<lambda>pattern. concat (findall U False pattern text)) spatial_patterns)
      in py_set_iter w (terms @ spatial))"

definition quality_patterns :: "rx list" where
  "quality_patterns =
     [seqs [Bound, Group 1 (words [''smooth'', ''rough'', ''jerky'', ''fluid'', ''stiff'',
                                   ''relaxed'', ''tense'']), Bound],
      seqs [Bound, Group 1 (words [''quick'', ''slow'', ''rapid'', ''gradual'', ''sudden'',
                                   ''gentle'']), Bound],
      seqs [Bound, Group 1 (words [''rhythmic'', ''erratic'', ''steady'', ''consistent'',
                                   ''irregular'']), Bound],
      seqs [Bound, Group 1 (words [''natural'', ''forced'', ''effortless'', ''deliberate'']),
            Bound]]"

definition comparative_patterns :: "rx list" where
  "comparative_patterns =
     [seqs [Bound, Group 1 (Seq (plus WordCh) (Lit (str ''er''))), plus SpaceCh,
            Group 2 (words [''than'', ''movement'']), Bound],
      seqs [Bound, Group 1 (words [''more'', ''less'']), plus SpaceCh,
            Group 2 (Seq (plus WordCh) (Lit (str ''ly''))), Bound]]"

definition extract_movement_qualifiers :: "world \<Rightarrow> pstr \<Rightarrow> pstr list" where
  "extract_movement_qualifiers w text =
     (let U = unicode w;
          quality = concat (map (\<lambda>pattern. concat (findall U False pattern text)) quality_patterns);
          comparative =
            concat (map (\<lambda>pattern.
                concat (map (filter (\<lambda>word. length word > 2)) (findall U False pattern text)))
              comparative_patterns)
      in py_set_iter w (quality @ comparative))"

definition extract_semantic_elements :: "world \<Rightarrow> pstr \<Rightarrow> semantic_elements" where
  "extract_semantic_elements w movement_description =
     (let text = py_lower (unicode w) movement_description
      in \<lparr> actions = take 3 (extract_actions_dynamically w text),
           descriptors = take 3 (extract_contextual_descriptors w text),
           qualifiers = take 2 (extract_movement_qualifiers w text),
           full_text = text \<rparr>)"

section \<open>Contextual modifiers\<close>

definition movement_biometrics :: "pstr list list" where
  "movement_biometrics =
     [map str [''stride'', ''cadence'', ''pace'', ''rhythm'', ''flow''],
      map str [''sync'', ''balance'', ''stability'', ''fluidity'', ''precision''],
      map str [''vigorous'', ''gentle'', ''explosive'', ''sustained'', ''irregular''],
      map str [''linear'', ''curved'', ''angular'', ''circular'', ''spiral'']]"

text \<open>
  The two nested loops that count the vocabulary terms occurring in the text, with the
  counter as accumulator.
\<close>

definition count_movement_types :: "pstr \<Rightarrow> nat" where
  "count_movement_types text_lower =
     foldl (\<lambda>movement_types category.
              foldl (\<lambda>n pattern. if py_in pattern text_lower then n + 1 else n)
                movement_types category)
       0 movement_biometrics"

definition generate_movement_entropy :: "world \<Rightarrow> pstr \<Rightarrow> movement_entropy \<times> world" where
  "generate_movement_entropy w movement_text =
     (if movement_text = []
      then (case token_hex w 2 of (h, w') \<Rightarrow>
              (\<lparr> pattern_hash = h, complexity = Low, movement_types = None,
                 me_signature = None \<rparr>, w'))
      else
        (let U = unicode w;
             text_lower = py_lower U movement_text;
             types = count_movement_types text_lower;
             movement_words = concat (findall U False (seqs [Bound, plus WordCh, Bound]) text_lower);
             pattern_signature =
               take 8 (map (\<lambda>word. word ! 0) (filter (\<lambda>word. length word > 3) movement_words));
             movement_hash = take 3 (md5_hex w (pattern_signature @ py_str_nat types));
             complexity_level =
               (if types > 5 then High else if types > 2 then Medium else Low)
         in (\<lparr> pattern_hash = movement_hash, complexity = complexity_level,
               movement_types = Some types, me_signature = Some (take 4 pattern_signature) \<rparr>,
             w)))"

text \<open>
  One of the three indicator loops of \<open>_analyze_behavioral_patterns\<close>: the score grows by
  the weight and the tag is recorded for every indicator found.
\<close>

definition score_indicators ::
  "pstr \<Rightarrow> string list \<Rightarrow> nat \<Rightarrow> string \<Rightarrow> nat \<times> pstr list \<Rightarrow> nat \<times> pstr list" where
  "score_indicators text_lower indicators weight tag acc =
     foldl (\<lambda>(complexity_score, behavioral_features) indicator.
              if py_in (str indicator) text_lower
              then (complexity_score + weight, behavioral_features @ [str tag])
              else (complexity_score, behavioral_features))
       acc indicators"

definition analyze_behavioral_patterns :: "world \<Rightarrow> pstr \<Rightarrow> behavioral_signature" where
  "analyze_behavioral_patterns w movement_text =
     (if movement_text = []
      then \<lparr> complexity_score = str ''0'', bs_signature = None, confidence = Low,
             features_detected = None \<rparr>
      else
        (let text_lower = py_lower (unicode w) movement_text;
             coordination_indicators =
               [''smooth'', ''coordinated'', ''synchronized'', ''balanced'', ''stable''];
             energy_indicators =
               [''quick'', ''slow'', ''vigorous'', ''gentle'', ''explosive'', ''sustained''];
             precision_indicators =
               [''precise'', ''deliberate'', ''controlled'', ''natural'', ''fluid''];
             (score, behavioral_features) =
               score_indicators text_lower precision_indicators 1 ''P''
                 (score_indicators text_lower energy_indicators 3 ''E''
                   (score_indicators text_lower coordination_indicators 2 ''C'' (0, [])));
             joined = take 3 (concat (py_set_iter w behavioral_features));
             signature = (if joined = [] then str ''GEN'' else joined);
             conf = (if score > 8 then High else if score > 4 then Medium else Low)
         in \<lparr> complexity_score = py_str_nat score, bs_signature = Some signature,
              confidence = conf, features_detected = Some (length behavioral_features) \<rparr>))"

text \<open>
  The four strings of the temporal context. Only \<open>compound_time\<close> and \<open>micro_time\<close> are
  used afterwards.
\<close>

record temporal_context =
  micro_time :: pstr
  compound_time :: pstr
  cyclical :: pstr
  seasonal :: pstr

definition temporal_context_of :: "datetime \<Rightarrow> temporal_context" where
  "temporal_context_of now =
     \<lparr> micro_time = take 3 (py_str_nat (dt_microsecond now)),
       compound_time =
         py_str_nat (dt_hour now) @ py_str_nat (dt_minute now) @ py_str_nat (dt_second now),
       cyclical = py_str_nat (dt_weekday now) @ py_str_nat (dt_day now mod 7),
       seasonal = py_str_nat (dt_month now) @ py_str_nat (dt_day now div 7 + 1) \<rparr>"

definition generate_contextual_modifiers ::
  "world \<Rightarrow> pstr \<Rightarrow> contextual_modifiers \<times> world" where
  "generate_contextual_modifiers w movement_analysis =
     (let (now, w1) = datetime_now w;
          tc = temporal_context_of now;
          (entropy, w2) = generate_movement_entropy w1 movement_analysis;
          behavioral = analyze_behavioral_patterns w2 movement_analysis;
          entropy_sources =
            [compound_time tc, pattern_hash entropy, complexity_score behavioral, micro_time tc];
          combined_hash = sha256_hex w2 (concat entropy_sources);
          (token, w3) = token_hex w2 3
      in (\<lparr> temporal = take 4 combined_hash,
            movement_entropy = entropy,
            behavioral_signature = behavioral,
            session = token,
            compound_modifier = slice combined_hash 4 8 \<rparr>, w3))"

section \<open>Password assembly\<close>

text \<open>
  The exceptions the pipeline can meet, and \<open>str(e)\<close> for each: an index into an empty
  string, a template slot without a component, a malformed template, and an exception
  raised by a library call.
\<close>

datatype exn = IndexError | KeyError pstr | ValueError pstr | LibraryError pstr

fun exn_str :: "exn \<Rightarrow> pstr" where
  "exn_str IndexError = str ''string index out of range''"
| "exn_str (KeyError k) = [39] @ k @ [39]"
| "exn_str (ValueError m) = m"
| "exn_str (LibraryError m) = m"

subsection \<open>Character substitution\<close>

definition basic_substitutions :: "(nat \<times> nat) list" where
  "basic_substitutions =
     zip (str ''aeiostlgb'') (str ''@3!0$7196'')"

definition advanced_substitutions :: "(nat \<times> nat) list" where
  "advanced_substitutions =
     zip (str ''uncyprm'') [181, 241, 162, 165, 254, 345, 1084]"

definition contextual_substitutions :: "(pstr \<times> pstr) list" where
  "contextual_substitutions =
     zip (map str [''walk'', ''move'', ''turn'', ''step'', ''wave''])
         (map str [''w4lk'', ''m0v3'', ''7urn'', ''57ep'', ''w4v3''])"

definition movement_transform :: "(nat \<times> nat) list" where
  "movement_transform =
     zip (str ''wsrlmudf'') [8767, 126, 8635, 8634, 8597, 8593, 8595, 8594]"

text \<open>
  One round of the loop of \<open>apply_entropy_randomization\<close> at index \<open>i\<close> and character
  \<open>char\<close>: the text that replaces the character, whether a change was counted, and the
  random source afterwards. A \<open>random.random()\<close> is drawn only when the test before
  \<open>and\<close> holds. Probabilities are in hundredths.
\<close>

definition randomize_char :: "world \<Rightarrow> nat \<Rightarrow> nat \<Rightarrow> pstr \<times> bool \<times> world" where
  "randomize_char w i char =
     (let U = unicode w;
          (b1, w1) = (if map_of basic_substitutions char \<noteq> None
                      then random_below w 40 else (False, w))
      in if b1 then ([the (map_of basic_substitutions char)], True, w1)
         else
           (let (b2, w2) = (if map_of advanced_substitutions char \<noteq> None
                            then random_below w1 20 else (False, w1))
            in if b2 then ([the (map_of advanced_substitutions char)], True, w2)
               else
                 (let (b3, w3) = (if py_isalpha U char then random_below w2 25
                                  else (False, w2))
                  in if b3
                     then ((if i mod 2 = 0 then py_upper_char U char
                            else py_str_nat (char mod 10)), True, w3)
                     else
                       (let (b4, w4) = (if py_isalpha U char then random_below w3 15
                                        else (False, w3))
                        in if b4
                           then (case map_of movement_transform char of
                                   Some t \<Rightarrow> ([t], True, w4)
                                 | None \<Rightarrow> ([char], False, w4))
                           else ([char], False, w4)))))"

text \<open>The loop itself; once \<open>max_changes\<close> is reached the rest stays as it is.\<close>

fun randomize_loop :: "nat \<Rightarrow> nat \<Rightarrow> pstr \<Rightarrow> nat \<Rightarrow> world \<Rightarrow> pstr \<times> world" where
  "randomize_loop max_changes i [] changes_made w = ([], w)"
| "randomize_loop max_changes i (char # rest) changes_made w =
     (if changes_made \<ge> max_changes then (char # rest, w)
      else (case randomize_char w i char of
              (r, changed, w') \<Rightarrow>
                (case randomize_loop max_changes (Suc i) rest
                        (if changed then changes_made + 1 else changes_made) w' of
                   (rs, w'') \<Rightarrow> (r @ rs, w''))))"

datatype randomization_context = General | Movement

text \<open>
  \<open>entropy_level\<close> is given in hundredths. \<open>int(len(text) * entropy_level)\<close> is a floating
  point product cut to an integer; on the texts of at most six characters that the
  assembler passes, it is the integer quotient.
\<close>

definition apply_entropy_randomization ::
  "world \<Rightarrow> pstr \<Rightarrow> nat \<Rightarrow> randomization_context \<Rightarrow> pstr \<times> world" where
  "apply_entropy_randomization w text entropy_level ctx =
     (if text = [] then (text, w)
      else
        (let lowered = py_lower (unicode w) text;
             max_changes = max 1 (length text * entropy_level div 100)
         in if ctx = Movement \<and> map_of contextual_substitutions lowered \<noteq> None
            then (the (map_of contextual_substitutions lowered), w)
            else randomize_loop max_changes 0 lowered 0 w))"

subsection \<open>Templates\<close>

text \<open>
  \<open>template.format(**components)\<close> for templates made of literal text and plain named
  fields \<open>{name}\<close>, with the doubled braces that stand for a brace. The second argument is
  the field name being read, if any. Conversions, format specifications and attribute or
  index lookups in a field do not occur in the templates of the program and are not
  modelled.
\<close>

fun format_from :: "(pstr \<times> pstr) list \<Rightarrow> pstr option \<Rightarrow> pstr \<Rightarrow> exn + pstr" where
  "format_from comps None [] = Inr []"
| "format_from comps (Some name) [] =
     Inl (ValueError (str ''expected } before end of string''))"
| "format_from comps None (c # cs) =
     (if c = 123 then
        (case cs of
           d # ds \<Rightarrow>
             (if d = 123
              then (case format_from comps None ds of Inl e \<Rightarrow> Inl e | Inr r \<Rightarrow> Inr (123 # r))
              else format_from comps (Some []) cs)
         | [] \<Rightarrow> Inl (ValueError (str ''Single { encountered in format string'')))
      else if c = 125 then
        (case cs of
           d # ds \<Rightarrow>
             (if d = 125
              then (case format_from comps None ds of Inl e \<Rightarrow> Inl e | Inr r \<Rightarrow> Inr (125 # r))
              else Inl (ValueError (str ''Single } encountered in format string'')))
         | [] \<Rightarrow> Inl (ValueError (str ''Single } encountered in format string'')))
      else (case format_from comps None cs of Inl e \<Rightarrow> Inl e | Inr r \<Rightarrow> Inr (c # r)))"
| "format_from comps (Some name) (c # cs) =
     (if c = 125 then
        (case map_of comps name of
           None \<Rightarrow> Inl (KeyError name)
         | Some v \<Rightarrow>
             (case format_from comps None cs of Inl e \<Rightarrow> Inl e | Inr r \<Rightarrow> Inr (v @ r)))
      else format_from comps (Some (name @ [c])) cs)"

definition py_format :: "pstr \<Rightarrow> (pstr \<times> pstr) list \<Rightarrow> exn + pstr" where
  "py_format template comps = format_from comps None template"

definition high_security_templates :: "pstr list" where
  "high_security_templates =
     map str [''{action}_{biometric}_{temporal}_{random}'',
              ''{biometric}{action}_{entropy}_{behavioral}'',
              ''{signature}{action}_{temporal}{biometric}'',
              ''{action}_{behavioral}_{entropy}_{signature}'']"

definition medium_security_templates :: "pstr list" where
  "medium_security_templates =
     map str [''{action}_{modifier}_{temporal}_{random}'',
              ''{action}{signature}_{entropy}_{random}'',
              ''{modifier}_{action}_{biometric}_{temporal}'']"

definition select_security_optimal_template ::
  "world \<Rightarrow> semantic_elements \<Rightarrow> contextual_modifiers \<Rightarrow> pstr \<times> world" where
  "select_security_optimal_template w se cm =
     (let behavioral_confidence = confidence (behavioral_signature cm);
          movement_complexity = complexity (movement_entropy cm);
          use_high_security =
            (behavioral_confidence \<in> set [High, Medium]
             \<and> movement_complexity \<in> set [High, Medium]
             \<and> length (actions se) \<ge> 2);
          templates =
            (if use_high_security then high_security_templates else medium_security_templates)
      in random_choice w templates)"

text \<open>
  \<open>components.get(key, default)\<close>; the defaults that draw random bytes are evaluated
  before the lookup, as Python evaluates arguments.
\<close>

definition dynamic_password_assembly ::
  "world \<Rightarrow> pstr \<Rightarrow> (pstr \<times> pstr) list \<Rightarrow> (exn + pstr) \<times> world" where
  "dynamic_password_assembly w template comps =
     (case py_format template comps of
        Inr password \<Rightarrow> (Inr password, w)
      | Inl (KeyError k) \<Rightarrow>
          (let get = (\<lambda>key dflt. case map_of comps (str key) of Some v \<Rightarrow> v | None \<Rightarrow> dflt);
               (t1, w1) = token_hex w 2;
               (t2, w2) = token_hex w1 2
           in (py_format (str ''{action}_{biometric}_{temporal}_{random}'')
                 [(str ''action'', get ''action'' (str ''m'' @ [920] @ str ''v'')),
                  (str ''biometric'', get ''biometric'' (str ''B10'')),
                  (str ''temporal'', get ''temporal'' t1),
                  (str ''random'', get ''random'' t2)], w2))
      | Inl e \<Rightarrow> (Inl e, w))"

subsection \<open>Components\<close>

text \<open>\<open>s[0].upper()\<close>, which raises on the empty string.\<close>

definition first_upper :: "unicode_db \<Rightarrow> pstr \<Rightarrow> exn + pstr" where
  "first_upper U s = (case s of [] \<Rightarrow> Inl IndexError | c # cs \<Rightarrow> Inr (py_upper_char U c))"

text \<open>Running a fallible function over a list, stopping at the first exception.\<close>

fun map_exn :: "('a \<Rightarrow> exn + 'b) \<Rightarrow> 'a list \<Rightarrow> exn + 'b list" where
  "map_exn f [] = Inr []"
| "map_exn f (x # xs) =
     (case f x of
        Inl e \<Rightarrow> Inl e
      | Inr y \<Rightarrow> (case map_exn f xs of Inl e \<Rightarrow> Inl e | Inr ys \<Rightarrow> Inr (y # ys)))"

definition generate_biometric_hash ::
  "world \<Rightarrow> semantic_elements \<Rightarrow> behavioral_signature \<Rightarrow> (exn + pstr) \<times> world" where
  "generate_biometric_hash w se behavioral_data =
     (case (if actions se \<noteq> [] then map_exn (first_upper (unicode w)) (take 3 (actions se))
            else Inr []) of
        Inl e \<Rightarrow> (Inl e, w)
      | Inr action_signature \<Rightarrow>
          (let biometric_string =
                 concat action_signature
                 @ complexity_score behavioral_data
                 @ (case bs_signature behavioral_data of Some s \<Rightarrow> s | None \<Rightarrow> [])
           in if biometric_string \<noteq> []
              then (Inr (take 6 (sha256_hex w biometric_string)), w)
              else (case token_hex w 3 of (h, w') \<Rightarrow> (Inr h, w'))))"

definition priority_actions :: "pstr list" where
  "priority_actions =
     map str [''walking'', ''running'', ''jumping'', ''waving'', ''pointing'', ''turning'']"

text \<open>\<open>max(actions, key=len)\<close>: the first of the longest.\<close>

definition longest :: "pstr list \<Rightarrow> pstr" where
  "longest xs = foldl (\<lambda>best a. if length a > length best then a else best) (hd xs) (tl xs)"

definition select_primary_action :: "pstr list \<Rightarrow> pstr" where
  "select_primary_action acts =
     (case List.find (\<lambda>pa. py_in (fst pa) (snd pa))
             (concat (map (\<lambda>priority_action. map (Pair priority_action) acts) priority_actions)) of
        Some pa \<Rightarrow> snd pa
      | None \<Rightarrow> (if acts \<noteq> [] then longest acts else str ''move''))"

definition extract_multi_source_descriptor :: "world \<Rightarrow> semantic_elements \<Rightarrow> pstr \<times> world" where
  "extract_multi_source_descriptor w se =
     (let (descriptor, w') =
            (if qualifiers se \<noteq> []
             then apply_entropy_randomization w (take 5 (qualifiers se ! 0)) 30 General
             else if descriptors se \<noteq> []
             then apply_entropy_randomization w (take 4 (descriptors se ! 0)) 35 General
             else if length (actions se) > 1
             then apply_entropy_randomization w (take 4 (actions se ! 1)) 40 General
             else ([], w))
      in (if descriptor \<noteq> [] then descriptor else str ''d'' @ [936] @ str ''n'', w'))"

definition create_advanced_movement_signature ::
  "world \<Rightarrow> semantic_elements \<Rightarrow> contextual_modifiers \<Rightarrow> pstr" where
  "create_advanced_movement_signature w se cm =
     (let U = unicode w;
          from_actions =
            map (\<lambda>action. py_upper_char U (action ! 0))
              (filter (\<lambda>action. action \<noteq> []) (take 2 (actions se)));
          from_behavior =
            (case bs_signature (behavioral_signature cm) of
               Some s \<Rightarrow> (if s \<noteq> [] then [take 2 s] else [])
             | None \<Rightarrow> []);
          from_entropy =
            (case me_signature (movement_entropy cm) of
               Some s \<Rightarrow> (if s \<noteq> [] then [take 2 s] else [])
             | None \<Rightarrow> []);
          marker =
            (if complexity (movement_entropy cm) = High then [[937]]
             else if complexity (movement_entropy cm) = Low then [[945]]
             else []);
          joined = concat (from_actions @ from_behavior @ from_entropy @ marker);
          base_signature = (if joined \<noteq> [] then joined else [77, 931])
      in take 4 (md5_hex w base_signature))"

definition password_components ::
  "pstr \<Rightarrow> pstr \<Rightarrow> pstr \<Rightarrow> pstr \<Rightarrow> pstr \<Rightarrow> pstr \<Rightarrow> pstr \<Rightarrow> pstr \<Rightarrow> (pstr \<times> pstr) list" where
  "password_components action descriptor biometric_hash temporal_layer entropy_layer
       behavioral_layer random_component movement_signature =
     [(str ''action'', if action \<noteq> [] then action else str ''m'' @ [920] @ str ''v''),
      (str ''modifier'', descriptor),
      (str ''biometric'', take 4 biometric_hash),
      (str ''temporal'', temporal_layer),
      (str ''entropy'', entropy_layer),
      (str ''behavioral'', behavioral_layer),
      (str ''random'', random_component),
      (str ''signature'', movement_signature)]"

text \<open>
  Everything \<open>assemble_password\<close> does before it renders the template: the chosen
  template and the dictionary of components.
\<close>

definition assemble_components ::
  "world \<Rightarrow> semantic_elements \<Rightarrow> contextual_modifiers
     \<Rightarrow> (exn + pstr \<times> (pstr \<times> pstr) list) \<times> world" where
  "assemble_components w se cm =
     (case generate_biometric_hash w se (behavioral_signature cm) of
        (Inl e, w1) \<Rightarrow> (Inl e, w1)
      | (Inr biometric_hash, w1) \<Rightarrow>
          (let (action, w2) =
                 (if actions se \<noteq> []
                  then apply_entropy_randomization w1
                         (take 6 (select_primary_action (actions se))) 40 Movement
                  else ([], w1));
               (descriptor, w3) = extract_multi_source_descriptor w2 se;
               movement_signature = create_advanced_movement_signature w3 se cm;
               temporal_layer = temporal cm;
               (unused_default, w4) = token_hex w3 2;
               entropy_layer = compound_modifier cm;
               behavioral_layer =
                 (case bs_signature (behavioral_signature cm) of
                    Some s \<Rightarrow> s | None \<Rightarrow> str ''GEN'');
               movement_complexity = complexity (movement_entropy cm);
               random_entropy =
                 (if movement_complexity = High then 3
                  else if movement_complexity = Medium then 2 else 1);
               (random_component, w5) = token_hex w4 random_entropy;
               (template, w6) = select_security_optimal_template w5 se cm
           in (Inr (template,
                    password_components action descriptor biometric_hash temporal_layer
                      entropy_layer behavioral_layer random_component movement_signature),
               w6)))"

definition assemble_password ::
  "world \<Rightarrow> semantic_elements \<Rightarrow> contextual_modifiers \<Rightarrow> (exn + pstr) \<times> world" where
  "assemble_password w se cm =
     (case assemble_components w se cm of
        (Inl e, w1) \<Rightarrow> (Inl e, w1)
      | (Inr (template, comps), w1) \<Rightarrow>
          (case dynamic_password_assembly w1 template comps of
             (Inl e, w2) \<Rightarrow> (Inl e, w2)
           | (Inr password, w2) \<Rightarrow>
               (case ensure_advanced_complexity w2 password cm of
                  (p, w3) \<Rightarrow> (Inr p, w3))))"

section \<open>The orchestrator\<close>

text \<open>
  The feedback lines of \<open>analyze_extraction_effectiveness\<close> are formatted strings; the
  model keeps what each line reports. The utilization rate is a floating point number in
  the source and the exact quotient here.
\<close>

datatype feedback_line =
    Extracted_actions nat "pstr list"
  | No_actions
  | Extracted_descriptors nat
  | No_descriptors
  | Extracted_qualities "pstr list"
  | Text_utilization rat

record extraction_analysis =
  effectiveness_score :: nat
  ea_max_score :: nat
  feedback :: "feedback_line list"
  utilization_rate :: rat

definition analyze_extraction_effectiveness ::
  "pstr \<Rightarrow> semantic_elements \<Rightarrow> extraction_analysis" where
  "analyze_extraction_effectiveness movement_text extracted_elements =
     (let (s1, f1) =
            (if actions extracted_elements \<noteq> []
             then (3, [Extracted_actions (length (actions extracted_elements))
                         (actions extracted_elements)])
             else (0, [No_actions]));
          (s2, f2) =
            (if descriptors extracted_elements \<noteq> []
             then (s1 + 2, f1 @ [Extracted_descriptors (length (descriptors extracted_elements))])
             else (s1, f1 @ [No_descriptors]));
          (s3, f3) =
            (if qualifiers extracted_elements \<noteq> []
             then (s2 + 1, f2 @ [Extracted_qualities (qualifiers extracted_elements)])
             else (s2, f2));
          text_words = length (py_split movement_text);
          extracted_words =
            length (actions extracted_elements) + length (descriptors extracted_elements)
            + length (qualifiers extracted_elements);
          rate = of_nat extracted_words / of_nat text_words * 100;
          f4 = (if text_words > 0 then f3 @ [Text_utilization rate] else f3)
      in \<lparr> effectiveness_score = s3, ea_max_score = 6, feedback = f4,
           utilization_rate = (if text_words > 0 then rate else 0) \<rparr>)"

fun level_name :: "level \<Rightarrow> pstr" where
  "level_name Low = str ''low''"
| "level_name Medium = str ''medium''"
| "level_name High = str ''high''"

definition get_security_features_summary :: "contextual_modifiers \<Rightarrow> pstr list" where
  "get_security_features_summary cm =
     (let behavioral_confidence = confidence (behavioral_signature cm);
          movement_complexity = complexity (movement_entropy cm)
      in (if behavioral_confidence \<in> set [High, Medium]
          then [str ''Behavioral biometrics ('' @ level_name behavioral_confidence
                @ str '' confidence)'']
          else [])
         @ [str ''Movement entropy analysis ('' @ level_name movement_complexity
            @ str '' complexity)'']
         @ (if compound_modifier cm \<noteq> [] then [str ''Multi-layered cryptographic hashing'']
            else [])
         @ [str ''High-precision temporal entropy'',
            str ''Multi-tier character substitution'',
            str ''Movement pattern fingerprinting''])"

datatype generation_method = Advanced_biometric_extraction | Fallback

text \<open>
  The dictionary \<open>generate_password\<close> returns. The key \<open>components\<close> holds one of two
  dictionaries; the keys \<open>strength_analysis\<close> and \<open>security_features\<close> are optional
  fields, absent where the code does not write them.
\<close>

datatype components =
    Generation_details semantic_elements contextual_modifiers extraction_analysis
  | Error_details pstr bool

record password_result =
  password :: pstr
  components :: components
  strength :: strength
  strength_analysis :: "strength_report option"
  generation_method :: generation_method
  security_features :: "pstr list option"

text \<open>
  A statement of the \<open>try\<close> block: it raises what the environment makes a library call
  in it raise, and runs otherwise.
\<close>

definition attempt :: "world \<Rightarrow> stage \<Rightarrow> (exn + 'a) \<times> world \<Rightarrow> (exn + 'a) \<times> world" where
  "attempt w s body =
     (case fault w s of Some m \<Rightarrow> (Inl (LibraryError m), w) | None \<Rightarrow> body)"

text \<open>The merge of the two extraction results.\<close>

definition combine_elements ::
  "world \<Rightarrow> semantic_elements \<Rightarrow> semantic_elements \<Rightarrow> semantic_elements" where
  "combine_elements w summary_elements analysis_elements =
     \<lparr> actions =
         take 3 (py_set_iter w (actions summary_elements @ actions analysis_elements)),
       descriptors =
         take 3 (py_set_iter w (descriptors summary_elements @ descriptors analysis_elements)),
       qualifiers =
         take 2 (py_set_iter w (qualifiers summary_elements @ qualifiers analysis_elements)),
       full_text = full_text summary_elements @ str '' '' @ full_text analysis_elements \<rparr>"

text \<open>The body of the \<open>try\<close> block.\<close>

definition generate_password_try ::
  "world \<Rightarrow> pstr \<Rightarrow> pstr \<Rightarrow> (exn + password_result) \<times> world" where
  "generate_password_try w movement_analysis movement_summary =
     attempt w Extract_analysis
      (let analysis_elements = extract_semantic_elements w movement_analysis in
       attempt w Extract_summary
        (let summary_elements = extract_semantic_elements w movement_summary in
         attempt w Combine
          (let combined_elements = combine_elements w summary_elements analysis_elements in
           attempt w Effectiveness
            (let extraction =
                   analyze_extraction_effectiveness (full_text combined_elements)
                     combined_elements in
             attempt w Modifiers
              (case generate_contextual_modifiers w (full_text combined_elements) of
                 (cm, w1) \<Rightarrow>
                   attempt w1 Assemble
                    (case assemble_password w1 combined_elements cm of
                       (Inl e, w2) \<Rightarrow> (Inl e, w2)
                     | (Inr pw, w2) \<Rightarrow>
                         attempt w2 Assess
                          (let report = assess_password_strength w2 pw (Some cm) in
                           attempt w2 Package
                            (Inr \<lparr> password = pw,
                                   components =
                                     Generation_details combined_elements cm extraction,
                                   strength = sr_strength report,
                                   strength_analysis = Some report,
                                   generation_method = Advanced_biometric_extraction,
                                   security_features =
                                     Some (get_security_features_summary cm) \<rparr>,
                             w2))))))))"

text \<open>The \<open>except\<close> clause.\<close>

definition fallback_result :: "world \<Rightarrow> exn \<Rightarrow> password_result \<times> world" where
  "fallback_result w e =
     (case token_hex w 4 of
        (token, w1) \<Rightarrow>
          (case datetime_now w1 of
             (now, w2) \<Rightarrow>
               (\<lparr> password = str ''Move'' @ token @ py_str_nat (dt_hour now) @ str ''!'',
                  components = Error_details (exn_str e) True,
                  strength = Medium_strength,
                  strength_analysis = None,
                  generation_method = Fallback,
                  security_features = None \<rparr>, w2)))"

definition generate_password :: "world \<Rightarrow> pstr \<Rightarrow> pstr \<Rightarrow> password_result \<times> world" where
  "generate_password w movement_analysis movement_summary =
     (case generate_password_try w movement_analysis movement_summary of
        (Inr result, w') \<Rightarrow> (result, w')
      | (Inl e, w') \<Rightarrow> fallback_result w' e)"

section \<open>Reading the result and sample environments\<close>

text \<open>The entries of the dictionary under \<open>components\<close>, where present.\<close>

fun semantic_elements_of :: "components \<Rightarrow> semantic_elements option" where
  "semantic_elements_of (Generation_details se cm ea) = Some se"
| "semantic_elements_of (Error_details m used) = None"

fun contextual_modifiers_of :: "components \<Rightarrow> contextual_modifiers option" where
  "contextual_modifiers_of (Generation_details se cm ea) = Some cm"
| "contextual_modifiers_of (Error_details m used) = None"

fun error_of :: "components \<Rightarrow> pstr option" where
  "error_of (Generation_details se cm ea) = None"
| "error_of (Error_details m used) = Some m"

definition hex_char :: "nat \<Rightarrow> bool" where
  "hex_char c \<longleftrightarrow> is_ascii_digit c \<or> (97 \<le> c \<and> c \<le> 102)"

text \<open>
  An environment in which no library call raises, every random draw is 0, the clock
  stands at midnight, a set iterates in the order of first insertion from the back, and
  the hash functions return fixed digests.
\<close>

definition example_world :: world where
  "example_world =
     \<lparr> unicode = \<lparr> uc_isalpha = (\<lambda>c. False), uc_isword = (\<lambda>c. False),
                   uc_isdigit = (\<lambda>c. False), uc_lower = (\<lambda>s i. [s ! i]),
                   uc_upper = (\<lambda>c. [c]) \<rparr>,
       sha256_hex = (\<lambda>s. str ''9f86d081884c7d659a2feaa0c55ad015a3bf4f1b2b0b822cd15d6c15b0f00a08''),
       md5_hex = (\<lambda>s. str ''098f6bcd4621d373cade4e832627b4f6''),
       set_order = (\<lambda>xs s. 0),
       fault = (\<lambda>s. None),
       clock = (\<lambda>n. \<lparr> dt_month = 0, dt_day = 0, dt_weekday = 0, dt_hour = 0, dt_minute = 0,
                      dt_second = 0, dt_microsecond = 0 \<rparr>),
       ticks = 0,
       draws = (\<lambda>n. 0),
       cursor = 0 \<rparr>"

text \<open>
  An environment in which the first statement of the \<open>try\<close> block raises, the random
  bytes are 171, 172, 173, ... and it is 13 o'clock.
\<close>

definition failing_world :: world where
  "failing_world =
     example_world
       \<lparr> fault := (\<lambda>s. if s = Extract_analysis then Some (str ''digest failed'') else None),
         clock := (\<lambda>n. \<lparr> dt_month = 0, dt_day = 0, dt_weekday = 0, dt_hour = 13,
                        dt_minute = 0, dt_second = 0, dt_microsecond = 0 \<rparr>),
         draws := (\<lambda>n. 171 + n) \<rparr>"

text \<open>
  The semantic elements and the contextual modifiers that the pipeline computes in
  \<open>example_world\<close> when both inputs are empty.
\<close>

definition no_elements :: semantic_elements where
  "no_elements = \<lparr> actions = [], descriptors = [], qualifiers = [], full_text = str '' '' \<rparr>"

definition blank_modifiers :: contextual_modifiers where
  "blank_modifiers =
     \<lparr> temporal = str ''9f86'',
       movement_entropy = \<lparr> pattern_hash = str ''098'', complexity = Low,
         movement_types = Some 0, me_signature = Some [] \<rparr>,
       behavioral_signature = \<lparr> complexity_score = str ''0'', bs_signature = Some (str ''GEN''),
         confidence = Low, features_detected = Some 0 \<rparr>,
       session = str ''000000'', compound_modifier = str ''d081'' \<rparr>"

text \<open>
  The iteration order of a \<open>set\<close> of strings follows their hashes, which the interpreter
  salts anew in each process. An environment in which the string \<open>walking\<close> comes after
  every other string of a set, and the other strings keep their order of insertion.
\<close>

definition ranking_world :: world where
  "ranking_world =
     example_world \<lparr> set_order := (\<lambda>xs s. if s = str ''walking'' then 1 else 0) \<rparr>"

section \<open>Length bounds of the complexity passes\<close>

lemma pad_hex_length: "n \<le> length (fst (pad_hex n pw w))"
proof (induction n pw w rule: pad_hex.induct)
  case (1 n pw w)
  show ?case
  proof (cases "length pw < n")
    case True
    obtain h w' where tk: "token_hex w 1 = (h, w')" by (cases "token_hex w 1")
    from "1" [OF True tk [symmetric]] True tk show ?thesis
      by (simp add: pad_hex.simps [of n pw w])
  next
    case False
    then show ?thesis by (simp add: pad_hex.simps [of n pw w])
  qed
qed

lemma pad_hex_done: "n \<le> length pw \<Longrightarrow> pad_hex n pw w = (pw, w)"
  by (simp add: pad_hex.simps)

lemma py_str_nat_digit: "d < 10 \<Longrightarrow> py_str_nat d = [48 + d]"
  by (simp add: py_str_nat.simps)

lemma ensure_complexity_length:
  "12 \<le> length (fst (ensure_complexity w pw)) \<and>
   length (fst (ensure_complexity w pw)) \<le> 20"
proof -
  have "12 \<le> length (fst (pad_hex 12 p v))" for p v by (rule pad_hex_length)
  then show ?thesis
    unfolding ensure_complexity_def Let_def
    by (simp add: split_def)
qed

lemma ensure_advanced_complexity_length:
  "12 \<le> length (fst (ensure_advanced_complexity w pw cm)) \<and>
   length (fst (ensure_advanced_complexity w pw cm)) \<le> 24"
proof -
  have a: "12 \<le> length (fst (pad_hex 12 p v))" for p v by (rule pad_hex_length)
  have b: "12 \<le> length (fst (pad_hex 14 p v))" for p v using pad_hex_length [of 14 p v] by simp
  have c: "12 \<le> length (fst (pad_hex 16 p v))" for p v using pad_hex_length [of 16 p v] by simp
  show ?thesis
    unfolding ensure_advanced_complexity_def Let_def
    by (simp add: split_def a b c)
qed

section \<open>The baseline complexity pass\<close>

lemma special_choice_not_upper: "\<not> is_ascii_upper (str ''!@#$%'' ! (r mod 5))"
proof -
  have "r mod 5 < 5" by simp
  then have "r mod 5 = 0 \<or> r mod 5 = 1 \<or> r mod 5 = 2 \<or> r mod 5 = 3 \<or> r mod 5 = 4" by arith
  then show ?thesis by (auto simp: str_def is_ascii_upper_def)
qed

lemma digit_choice_not_upper: "\<not> is_ascii_upper (48 + r mod 10)"
proof -
  have "r mod 10 < 10" by simp
  then show ?thesis unfolding is_ascii_upper_def by arith
qed

text \<open>
  C2. The baseline pass should leave a punctuation symbol, a digit and an upper-case
  letter in its result. It does not, on two inputs evaluated here. The string
  \<open>1a2bm0v3_3c4d5e6f\<close> (a rendering of the template \<open>{signature}{action}_{temporal}{biometric}\<close>)
  has punctuation and digits and no upper-case letter; the pass upper-cases its first
  character, a digit, and returns the string unchanged, without an upper-case letter,
  whatever the random source. Twenty letters \<open>a\<close> get a symbol and a digit appended at
  positions 21 and 22, which the cut to 20 characters removes again: the result has
  neither punctuation nor a digit.
\<close>

theorem ensure_complexity_misses_classes:
  "ensure_complexity w (str ''1a2bm0v3_3c4d5e6f'') = (str ''1a2bm0v3_3c4d5e6f'', w)
   \<and> \<not> search_class is_ascii_upper (str ''1a2bm0v3_3c4d5e6f'')
   \<and> fst (ensure_complexity w (str ''aaaaaaaaaaaaaaaaaaaa'')) = str ''Aaaaaaaaaaaaaaaaaaaa''
   \<and> \<not> search_class punctuation (str ''Aaaaaaaaaaaaaaaaaaaa'')
   \<and> \<not> search_class (re_digit (unicode w)) (str ''Aaaaaaaaaaaaaaaaaaaa'')"
proof -
  have first: "ensure_complexity w (str ''1a2bm0v3_3c4d5e6f'') = (str ''1a2bm0v3_3c4d5e6f'', w)
     \<and> \<not> search_class is_ascii_upper (str ''1a2bm0v3_3c4d5e6f'')"
    by (simp add: ensure_complexity_def str_def search_class_def punctuation_def re_digit_def
        is_ascii_digit_def is_ascii_upper_def py_upper_char_def is_ascii_lower_def pad_hex_done
        Let_def)
  have a: "\<not> search_class punctuation (str ''aaaaaaaaaaaaaaaaaaaa'')"
    by (simp add: str_def search_class_def punctuation_def)
  have c: "\<not> re_digit U (str ''!@#$%'' ! (r mod 5))" for r U
  proof -
    have "r mod 5 < 5" by simp
    then have "r mod 5 = 0 \<or> r mod 5 = 1 \<or> r mod 5 = 2 \<or> r mod 5 = 3 \<or> r mod 5 = 4"
      by arith
    then show ?thesis by (auto simp: str_def re_digit_def is_ascii_digit_def)
  qed
  have b: "\<not> search_class (re_digit U) (str ''aaaaaaaaaaaaaaaaaaaa'' @ [str ''!@#$%'' ! (r mod 5)])"
    for U r
    using c [of U r] by (simp add: str_def search_class_def re_digit_def is_ascii_digit_def)
  have d: "\<not> search_class is_ascii_upper
      (str ''aaaaaaaaaaaaaaaaaaaa'' @ [str ''!@#$%'' ! (r mod 5)] @ [48 + q mod 10])" for r q
    using special_choice_not_upper [of r] digit_choice_not_upper [of q]
    by (simp add: search_class_def) (simp add: str_def is_ascii_upper_def)
  have second: "fst (ensure_complexity w (str ''aaaaaaaaaaaaaaaaaaaa'')) = str ''Aaaaaaaaaaaaaaaaaaaa''
     \<and> \<not> search_class punctuation (str ''Aaaaaaaaaaaaaaaaaaaa'')
     \<and> \<not> search_class (re_digit (unicode w)) (str ''Aaaaaaaaaaaaaaaaaaaa'')"
    using a b d
    by (simp add: ensure_complexity_def Let_def random_choice_def random_randint_def draw_def
        py_str_nat_digit pad_hex_done)
      (simp add: str_def search_class_def punctuation_def re_digit_def is_ascii_digit_def
        py_upper_char_def is_ascii_lower_def pad_hex_done)
  from first second show ?thesis by simp
qed

section \<open>The score against the reported maximum\<close>

text \<open>
  C10. In every environment there are a pw and contextual modifiers for which
  \<open>assess_password_strength\<close> returns a score strictly greater than the maximum it
  reports: the score is 17 and \<open>max_score\<close> is 15. The pw has 17 distinct
  characters, among them lower case, upper case, a digit, punctuation and the arrow 8594;
  the modifiers carry high confidence and high complexity.
\<close>

theorem assess_score_exceeds_max_score:
  "\<exists>pw cm.
     max_score (assess_password_strength w pw (Some cm)) = 15 \<and>
     score (assess_password_strength w pw (Some cm)) = 17 \<and>
     score (assess_password_strength w pw (Some cm))
       > max_score (assess_password_strength w pw (Some cm))"
  apply (rule exI [of _ "str ''aB1!'' @ [8594] @ str ''xZq7#wMk9@pR''"])
  apply (rule exI [of _
    "\<lparr> temporal = [],
       movement_entropy = \<lparr> pattern_hash = [], complexity = High, movement_types = None,
         me_signature = None \<rparr>,
       behavioral_signature = \<lparr> complexity_score = [], bs_signature = None,
         confidence = High, features_detected = None \<rparr>,
       session = [], compound_modifier = [] \<rparr>"])
  by (simp add: assess_password_strength_def str_def search_class_def is_ascii_lower_def
      is_ascii_upper_def re_digit_def is_ascii_digit_def punctuation_def biometric_marker_def
      sequential_patterns_def py_lower_def py_lower_at_def caseless_symbol_def Let_def)

section \<open>The fallback result\<close>

lemma hex_digit_hex: "d < 16 \<Longrightarrow> hex_char (hex_digit d)"
  unfolding hex_char_def hex_digit_def is_ascii_digit_def by auto

lemma token_hex_shape:
  "length (fst (token_hex w n)) = 2 * n \<and> list_all hex_char (fst (token_hex w n))"
proof (induction n arbitrary: w)
  case 0
  show ?case by simp
next
  case (Suc n)
  obtain r w' where d: "draw w = (r, w')" by (cases "draw w")
  obtain h w'' where t: "token_hex w' n = (h, w'')" by (cases "token_hex w' n")
  have "(r mod 256) div 16 < 16" by (simp add: less_mult_imp_div_less)
  moreover have "(r mod 256) mod 16 < 16" by simp
  ultimately have "list_all hex_char (hex_byte (r mod 256))"
    by (simp add: hex_byte_def hex_digit_hex)
  with Suc [of w'] d t show ?case by (simp add: hex_byte_def)
qed

lemma py_str_nat_small:
  assumes "n < 100"
  shows "(length (py_str_nat n) = 1 \<or> length (py_str_nat n) = 2)
         \<and> list_all is_ascii_digit (py_str_nat n)"
proof (cases "n < 10")
  case True
  then show ?thesis by (simp add: py_str_nat.simps [of n] is_ascii_digit_def)
next
  case False
  with assms have "n div 10 < 10" by simp
  then have "py_str_nat (n div 10) = [48 + n div 10]" by (simp add: py_str_nat.simps)
  moreover have "n mod 10 < 10" by simp
  ultimately show ?thesis using False \<open>n div 10 < 10\<close>
    by (simp add: py_str_nat.simps [of n] is_ascii_digit_def)
qed

lemma datetime_now_hour: "dt_hour (fst (datetime_now w)) < 24"
  by (simp add: datetime_now_def datetime_of_def)

lemma token_hex_clock:
  "clock (snd (token_hex w n)) = clock w \<and> ticks (snd (token_hex w n)) = ticks w"
proof (induction n arbitrary: w)
  case 0
  show ?case by simp
next
  case (Suc n)
  from Suc [of "w\<lparr>cursor := Suc (cursor w)\<rparr>"] show ?case
    by (cases "token_hex (w\<lparr>cursor := Suc (cursor w)\<rparr>) n") (simp add: draw_def)
qed

lemma py_str_nat_two:
  assumes "n < 100"
  shows "py_str_nat n = (if n < 10 then [48 + n] else [48 + n div 10, 48 + n mod 10])"
proof (cases "n < 10")
  case True
  then show ?thesis by (simp add: py_str_nat.simps [of n])
next
  case False
  with assms have "n div 10 < 10" by simp
  then have "py_str_nat (n div 10) = [48 + n div 10]" by (simp add: py_str_nat.simps)
  with False show ?thesis by (simp add: py_str_nat.simps [of n])
qed

lemma fallback_result_fields:
  "generation_method (fst (fallback_result w e)) = Fallback
   \<and> strength (fst (fallback_result w e)) = Medium_strength
   \<and> components (fst (fallback_result w e)) = Error_details (exn_str e) True
   \<and> strength_analysis (fst (fallback_result w e)) = None
   \<and> security_features (fst (fallback_result w e)) = None
   \<and> password (fst (fallback_result w e)) =
       str ''Move'' @ fst (token_hex w 4)
         @ py_str_nat (dt_hour (fst (datetime_now (snd (token_hex w 4))))) @ str ''!''"
  by (simp add: fallback_result_def split: prod.splits)

lemma fallback_result_length:
  "14 \<le> length (password (fst (fallback_result w e)))
   \<and> length (password (fst (fallback_result w e))) \<le> 15"
proof -
  let ?h = "dt_hour (fst (datetime_now (snd (token_hex w 4))))"
  have "?h < 100" using datetime_now_hour [of "snd (token_hex w 4)"] by simp
  from py_str_nat_small [OF this] token_hex_shape [of w 4] show ?thesis
    by (auto simp: fallback_result_fields str_def)
qed

section \<open>The two outcomes of the orchestrator\<close>

lemma assemble_password_length:
  assumes "assemble_password w se cm = (Inr p, w')"
  shows "12 \<le> length p \<and> length p \<le> 24"
proof -
  from assms obtain w2 q where "ensure_advanced_complexity w2 q cm = (p, w')"
    by (auto simp: assemble_password_def split: prod.splits sum.splits)
  then show ?thesis using ensure_advanced_complexity_length [of w2 q cm] by simp
qed

lemma try_success:
  assumes "generate_password_try w a s = (Inr r, w')"
  shows "generation_method r = Advanced_biometric_extraction
         \<and> strength_analysis r \<noteq> None \<and> security_features r \<noteq> None
         \<and> strength r = sr_strength (the (strength_analysis r))
         \<and> 12 \<le> length (password r) \<and> length (password r) \<le> 24"
proof -
  from assms obtain w1 w2 se cm pw ea where
    asm: "assemble_password w1 se cm = (Inr pw, w2)" and
    r: "r = \<lparr> password = pw, components = Generation_details se cm ea,
              strength = sr_strength (assess_password_strength w2 pw (Some cm)),
              strength_analysis = Some (assess_password_strength w2 pw (Some cm)),
              generation_method = Advanced_biometric_extraction,
              security_features = Some (get_security_features_summary cm) \<rparr>"
    by (auto simp: generate_password_try_def attempt_def Let_def
        split: option.splits prod.splits sum.splits)
  from assemble_password_length [OF asm] r show ?thesis by simp
qed

lemma generate_password_cases:
  "(\<exists>r w'. generate_password_try w a s = (Inr r, w') \<and> generate_password w a s = (r, w'))
   \<or> (\<exists>e w'. generate_password_try w a s = (Inl e, w')
         \<and> generate_password w a s = fallback_result w' e)"
  by (cases "generate_password_try w a s")
    (auto simp: generate_password_def split: sum.splits)

text \<open>
  C1. For every pair of input texts and every environment, the password in the result
  of \<open>generate_password\<close> has between 12 and 24 characters. This covers both paths: a
  result of the \<open>try\<close> block carries the output of \<open>ensure_advanced_complexity\<close>, and the
  result of the \<open>except\<close> clause has 14 or 15 characters.
\<close>

theorem generate_password_length:
  "12 \<le> length (password (fst (generate_password w movement_analysis movement_summary)))
   \<and> length (password (fst (generate_password w movement_analysis movement_summary))) \<le> 24"
proof -
  from generate_password_cases [of w movement_analysis movement_summary] show ?thesis
  proof (elim disjE exE conjE)
    fix r w'
    assume "generate_password_try w movement_analysis movement_summary = (Inr r, w')"
      and "generate_password w movement_analysis movement_summary = (r, w')"
    with try_success [of w movement_analysis movement_summary r w'] show ?thesis by simp
  next
    fix e w'
    assume "generate_password w movement_analysis movement_summary = fallback_result w' e"
    with fallback_result_length [of w' e] show ?thesis by simp
  qed
qed

text \<open>
  C4. When the \<open>try\<close> block of \<open>generate_password\<close> ends in an exception \<open>e\<close>, the result
  has the generation method \<open>fallback\<close>, the strength \<open>Medium\<close> and the message \<open>str(e)\<close> in
  its \<open>components\<close>. Its password is the prefix \<open>Move\<close>, then the eight hexadecimal
  characters of the four bytes that \<open>secrets.token_hex(4)\<close> draws, then the hour that
  \<open>datetime.now()\<close> reads after the draw, which is below 24 and written in decimal with
  one or two digits, then the punctuation character \<open>!\<close>.
\<close>

theorem fallback_on_exception:
  assumes "generate_password_try w movement_analysis movement_summary = (Inl e, w')"
  shows "generation_method (fst (generate_password w movement_analysis movement_summary)) = Fallback
    \<and> strength (fst (generate_password w movement_analysis movement_summary)) = Medium_strength
    \<and> components (fst (generate_password w movement_analysis movement_summary))
        = Error_details (exn_str e) True
    \<and> password (fst (generate_password w movement_analysis movement_summary))
        = str ''Move'' @ fst (token_hex w' 4)
            @ py_str_nat (dt_hour (fst (datetime_now (snd (token_hex w' 4))))) @ str ''!''
    \<and> length (fst (token_hex w' 4)) = 8 \<and> list_all hex_char (fst (token_hex w' 4))
    \<and> dt_hour (fst (datetime_now (snd (token_hex w' 4))))
        = dt_hour (clock w' (ticks w')) mod 24
    \<and> dt_hour (fst (datetime_now (snd (token_hex w' 4)))) < 24
    \<and> py_str_nat (dt_hour (fst (datetime_now (snd (token_hex w' 4)))))
        = (if dt_hour (fst (datetime_now (snd (token_hex w' 4)))) < 10
           then [48 + dt_hour (fst (datetime_now (snd (token_hex w' 4))))]
           else [48 + dt_hour (fst (datetime_now (snd (token_hex w' 4)))) div 10,
                 48 + dt_hour (fst (datetime_now (snd (token_hex w' 4)))) mod 10])
    \<and> punctuation (last (password (fst (generate_password w movement_analysis movement_summary))))"
proof -
  let ?h = "dt_hour (fst (datetime_now (snd (token_hex w' 4))))"
  have g: "generate_password w movement_analysis movement_summary = fallback_result w' e"
    using assms by (simp add: generate_password_def)
  have h24: "?h < 24" by (rule datetime_now_hour)
  have clk: "?h = dt_hour (clock w' (ticks w')) mod 24"
    using token_hex_clock [of w' 4] by (simp add: datetime_now_def datetime_of_def)
  have digits: "py_str_nat ?h = (if ?h < 10 then [48 + ?h] else [48 + ?h div 10, 48 + ?h mod 10])"
    using h24 by (intro py_str_nat_two) simp
  have tok: "length (fst (token_hex w' 4)) = 8 \<and> list_all hex_char (fst (token_hex w' 4))"
    using token_hex_shape [of w' 4] by simp
  have "punctuation (last (password (fst (fallback_result w' e))))"
    by (simp add: fallback_result_fields) (simp add: str_def punctuation_def)
  with h24 clk digits tok show ?thesis
    by (simp add: g fallback_result_fields)
qed

theorem fallback_on_exception_witness:
  "generate_password_try failing_world [] []
     = (Inl (LibraryError (str ''digest failed'')), failing_world)
   \<and> generation_method (fst (generate_password failing_world [] [])) = Fallback
   \<and> strength (fst (generate_password failing_world [] [])) = Medium_strength
   \<and> components (fst (generate_password failing_world [] []))
       = Error_details (str ''digest failed'') True
   \<and> password (fst (generate_password failing_world [] [])) = str ''Moveabacadae13!''"
proof -
  have h: "generate_password_try failing_world [] []
      = (Inl (LibraryError (str ''digest failed'')), failing_world)"
    by (simp add: generate_password_try_def attempt_def failing_world_def)
  have t: "fst (token_hex failing_world 4) = str ''abacadae''"
    by code_simp
  have c: "dt_hour (clock failing_world (ticks failing_world)) mod 24 = 13"
    by (simp add: failing_world_def)
  have d: "py_str_nat 13 = str ''13''"
    by (simp add: py_str_nat.simps str_def)
  from fallback_on_exception [OF h] h t c d show ?thesis
    by (simp add: str_def)
qed

text \<open>
  C8, as stated: every result has a \<open>strength_analysis\<close> and a list of
  \<open>security_features\<close>. The result of the \<open>except\<close> clause has neither: here the first
  statement of the \<open>try\<close> block raises.
\<close>

theorem result_fields_counterexample:
  "strength_analysis (fst (generate_password failing_world [] [])) = None
   \<and> security_features (fst (generate_password failing_world [] [])) = None"
proof -
  have "generate_password failing_world [] []
      = fallback_result failing_world (LibraryError (str ''digest failed''))"
    by (simp add: generate_password_def generate_password_try_def attempt_def failing_world_def)
  then show ?thesis by (simp add: fallback_result_fields)
qed

text \<open>
  C8, amended. Every result has a password, components, a generation method and a
  strength, which is one of the five tiers. It has a \<open>strength_analysis\<close> and a list of
  \<open>security_features\<close> exactly when its generation method is
  \<open>advanced_biometric_extraction\<close>; the fallback result has neither.
\<close>

theorem result_fields:
  "strength (fst (generate_password w movement_analysis movement_summary))
     \<in> set [Weak, Medium_strength, Strong, Very_strong, Exceptional]
   \<and> (strength_analysis (fst (generate_password w movement_analysis movement_summary)) = None)
       = (generation_method (fst (generate_password w movement_analysis movement_summary))
            = Fallback)
   \<and> (security_features (fst (generate_password w movement_analysis movement_summary)) = None)
       = (generation_method (fst (generate_password w movement_analysis movement_summary))
            = Fallback)"
proof -
  have tiers: "t \<in> set [Weak, Medium_strength, Strong, Very_strong, Exceptional]" for t
    by (cases t) simp_all
  from generate_password_cases [of w movement_analysis movement_summary]
  have "(strength_analysis (fst (generate_password w movement_analysis movement_summary)) = None)
       = (generation_method (fst (generate_password w movement_analysis movement_summary))
            = Fallback)
     \<and> (security_features (fst (generate_password w movement_analysis movement_summary)) = None)
       = (generation_method (fst (generate_password w movement_analysis movement_summary))
            = Fallback)"
  proof (elim disjE exE conjE)
    fix r w'
    assume "generate_password_try w movement_analysis movement_summary = (Inr r, w')"
      and "generate_password w movement_analysis movement_summary = (r, w')"
    with try_success [of w movement_analysis movement_summary r w'] show ?thesis by auto
  next
    fix e w'
    assume "generate_password w movement_analysis movement_summary = fallback_result w' e"
    then show ?thesis by (simp add: fallback_result_fields)
  qed
  with tiers show ?thesis by blast
qed

section \<open>Movement complexity\<close>

lemma count_loop:
  "foldl (\<lambda>n pattern. if P pattern then n + 1 else n) k xs = k + length (filter P xs)"
  by (induction xs arbitrary: k) simp_all

lemma count_nested:
  "foldl (\<lambda>n category. foldl (\<lambda>n pattern. if P pattern then n + 1 else n) n category) k cats
   = k + length (filter P (concat cats))"
  by (induction cats arbitrary: k) (simp_all add: count_loop)

lemma count_movement_types_eq:
  "count_movement_types text_lower
   = length (filter (\<lambda>pattern. py_in pattern text_lower) (concat movement_biometrics))"
  unfolding count_movement_types_def by (simp add: count_nested)

text \<open>
  C6. For a text that is not empty, the number of movement types is the number of the
  twenty vocabulary terms that occur in the lower-cased text, and the complexity is
  \<open>high\<close> when that number is greater than 5, \<open>medium\<close> when it is 3, 4 or 5, and
  \<open>low\<close> when it is at most 2.
\<close>

theorem movement_complexity_classification:
  assumes "movement_text \<noteq> []"
  shows "movement_types (fst (generate_movement_entropy w movement_text))
           = Some (length (filter (\<lambda>pattern. py_in pattern (py_lower (unicode w) movement_text))
                             (concat movement_biometrics)))
      \<and> complexity (fst (generate_movement_entropy w movement_text))
           = (if length (filter (\<lambda>pattern. py_in pattern (py_lower (unicode w) movement_text))
                          (concat movement_biometrics)) > 5 then High
              else if length (filter (\<lambda>pattern. py_in pattern (py_lower (unicode w) movement_text))
                               (concat movement_biometrics)) \<ge> 3 then Medium
              else Low)"
  using assms
  by (auto simp: generate_movement_entropy_def Let_def count_movement_types_eq)

theorem movement_complexity_classification_witness:
  "str ''stride cadence pace rhythm flow'' \<noteq> []
   \<and> movement_types (fst (generate_movement_entropy example_world
         (str ''stride cadence pace rhythm flow''))) = Some 5
   \<and> complexity (fst (generate_movement_entropy example_world
         (str ''stride cadence pace rhythm flow''))) = Medium"
proof -
  have h: "str ''stride cadence pace rhythm flow'' \<noteq> []" by (simp add: str_def)
  have n: "length (filter (\<lambda>pattern. py_in pattern
               (py_lower (unicode example_world) (str ''stride cadence pace rhythm flow'')))
             (concat movement_biometrics)) = 5"
    by code_simp
  from movement_complexity_classification [OF h, of example_world] h n show ?thesis by simp
qed

section \<open>Purity of the strength assessment\<close>

text \<open>
  C7. \<open>assess_password_strength\<close> reads nothing of the environment but the Unicode
  tables of the interpreter: two calls with the same password and the same contextual
  modifiers return the same report (strength, score, analysis and the rest), whatever the
  state of the random source and of the clock at each call.
\<close>

theorem assess_password_strength_pure:
  assumes "unicode w1 = unicode w2"
  shows "assess_password_strength w1 pw contextual_data
       = assess_password_strength w2 pw contextual_data"
  using assms by (simp add: assess_password_strength_def)

theorem assess_password_strength_pure_witness:
  "unicode example_world = unicode (example_world\<lparr>ticks := 7, draws := (\<lambda>n. n + 1), cursor := 3\<rparr>)
   \<and> assess_password_strength example_world (str ''Move000000000!'') None
     = assess_password_strength (example_world\<lparr>ticks := 7, draws := (\<lambda>n. n + 1), cursor := 3\<rparr>)
         (str ''Move000000000!'') None"
proof -
  have h: "unicode example_world
      = unicode (example_world\<lparr>ticks := 7, draws := (\<lambda>n. n + 1), cursor := 3\<rparr>)"
    by simp
  from assess_password_strength_pure [OF h] h show ?thesis by simp
qed

section \<open>Template rendering\<close>

lemma random_choice_mem: "xs \<noteq> [] \<Longrightarrow> fst (random_choice w xs) \<in> set xs"
  by (simp add: random_choice_def draw_def)

lemma template_renders:
  assumes "template \<in> set (high_security_templates @ medium_security_templates)"
  shows "\<exists>pw. py_format template
           (password_components action descriptor biometric_hash temporal_layer entropy_layer
              behavioral_layer random_component movement_signature) = Inr pw"
  using assms
  by (auto simp: high_security_templates_def medium_security_templates_def py_format_def
      password_components_def str_def)

lemma selected_template:
  assumes "select_security_optimal_template w se cm = (template, w')"
  shows "template \<in> set (high_security_templates @ medium_security_templates)"
proof -
  have "high_security_templates \<noteq> []" "medium_security_templates \<noteq> []"
    by (simp_all add: high_security_templates_def medium_security_templates_def)
  then have "fst (select_security_optimal_template w se cm)
      \<in> set (high_security_templates @ medium_security_templates)"
    using random_choice_mem [of high_security_templates w]
      random_choice_mem [of medium_security_templates w]
    by (auto simp: select_security_optimal_template_def Let_def)
  with assms show ?thesis by simp
qed

lemma assemble_components_shape:
  assumes "assemble_components w se cm = (Inr (template, comps), w')"
  shows "template \<in> set (high_security_templates @ medium_security_templates)
     \<and> (\<exists>a d b t e bh r s. comps = password_components a d b t e bh r s)"
proof -
  from assms obtain w5 a d b t e bh r s where
    "select_security_optimal_template w5 se cm = (template, w')"
    "comps = password_components a d b t e bh r s"
    by (auto simp: assemble_components_def Let_def split: prod.splits sum.splits)
  with selected_template [of w5 se cm template w'] show ?thesis by blast
qed

text \<open>
  C9. Whenever \<open>assemble_password\<close> reaches the rendering of its template, the
  dictionary of components binds exactly the eight slot names, every template of the
  high-security and of the medium-security set renders with it without an exception, the
  template chosen by \<open>_select_security_optimal_template\<close> is one of them, and
  \<open>_dynamic_password_assembly\<close> returns its rendering without entering its
  \<open>KeyError\<close> branch (it draws no random bytes).
\<close>

theorem key_error_unreachable:
  assumes "assemble_components w se cm = (Inr (template, comps), w')"
  shows "map fst comps = map str [''action'', ''modifier'', ''biometric'', ''temporal'',
                                   ''entropy'', ''behavioral'', ''random'', ''signature'']
     \<and> list_all (\<lambda>t. \<not> isl (py_format t comps))
           (high_security_templates @ medium_security_templates)
     \<and> template \<in> set (high_security_templates @ medium_security_templates)
     \<and> (\<exists>pw. py_format template comps = Inr pw
              \<and> dynamic_password_assembly w' template comps = (Inr pw, w'))"
proof -
  from assemble_components_shape [OF assms] obtain a d b t e bh r s where
    t: "template \<in> set (high_security_templates @ medium_security_templates)" and
    c: "comps = password_components a d b t e bh r s"
    by blast
  from template_renders [OF t, of a d b t e bh r s] c obtain pw where
    f: "py_format template comps = Inr pw" by blast
  then have d: "dynamic_password_assembly w' template comps = (Inr pw, w')"
    by (simp add: dynamic_password_assembly_def)
  have "\<not> isl (py_format x comps)"
    if "x \<in> set (high_security_templates @ medium_security_templates)" for x
    using template_renders [OF that, of a d b t e bh r s] c by auto
  then have "list_all (\<lambda>t. \<not> isl (py_format t comps))
      (high_security_templates @ medium_security_templates)"
    unfolding list_all_iff by blast
  moreover have "map fst comps = map str [''action'', ''modifier'', ''biometric'',
      ''temporal'', ''entropy'', ''behavioral'', ''random'', ''signature'']"
    using c by (simp add: password_components_def)
  ultimately show ?thesis using f d t by blast
qed

theorem key_error_unreachable_witness:
  "fst (assemble_components example_world no_elements blank_modifiers)
     = Inr (str ''{action}_{modifier}_{temporal}_{random}'',
            password_components [] (str ''d'' @ [936] @ str ''n'') (str ''9f86d0'') (str ''9f86'')
              (str ''d081'') (str ''GEN'') (str ''00'') (str ''098f''))
   \<and> py_format (str ''{action}_{modifier}_{temporal}_{random}'')
        (password_components [] (str ''d'' @ [936] @ str ''n'') (str ''9f86d0'') (str ''9f86'')
           (str ''d081'') (str ''GEN'') (str ''00'') (str ''098f''))
     = Inr (str ''m'' @ [920] @ str ''v_d'' @ [936] @ str ''n_9f86_00'')
   \<and> dynamic_password_assembly
        (snd (assemble_components example_world no_elements blank_modifiers))
        (str ''{action}_{modifier}_{temporal}_{random}'')
        (password_components [] (str ''d'' @ [936] @ str ''n'') (str ''9f86d0'') (str ''9f86'')
           (str ''d081'') (str ''GEN'') (str ''00'') (str ''098f''))
     = (Inr (str ''m'' @ [920] @ str ''v_d'' @ [936] @ str ''n_9f86_00''),
        snd (assemble_components example_world no_elements blank_modifiers))
   \<and> list_all (\<lambda>t. \<not> isl (py_format t
        (password_components [] (str ''d'' @ [936] @ str ''n'') (str ''9f86d0'') (str ''9f86'')
           (str ''d081'') (str ''GEN'') (str ''00'') (str ''098f''))))
        (high_security_templates @ medium_security_templates)"
proof -
  let ?T = "str ''{action}_{modifier}_{temporal}_{random}''"
  let ?C = "password_components [] (str ''d'' @ [936] @ str ''n'') (str ''9f86d0'') (str ''9f86'')
              (str ''d081'') (str ''GEN'') (str ''00'') (str ''098f'')"
  have v: "fst (assemble_components example_world no_elements blank_modifiers) = Inr (?T, ?C)"
    by code_simp
  then have h: "assemble_components example_world no_elements blank_modifiers
      = (Inr (?T, ?C), snd (assemble_components example_world no_elements blank_modifiers))"
    by (metis prod.collapse)
  have p: "py_format ?T ?C = Inr (str ''m'' @ [920] @ str ''v_d'' @ [936] @ str ''n_9f86_00'')"
    by code_simp
  from key_error_unreachable [OF h] v p show ?thesis by simp
qed

section \<open>Empty inputs\<close>

lemma bound_empty: "\<not> word_boundary U [] i"
  by (auto simp: word_boundary_def)

lemma findall_empty_text: "findall U ic (Seq Bound r) [] = []"
  by (simp add: findall_def findall_from.simps [of _ _ _ "[]"] bound_empty)

lemma py_set_iter_empty: "py_set_iter w [] = []"
  by (simp add: py_set_iter_def)

lemma py_lower_empty: "py_lower U [] = []"
  by (simp add: py_lower_def)

lemma py_in_empty: "p \<noteq> [] \<Longrightarrow> \<not> py_in p []"
  by simp

lemma extract_actions_empty: "extract_actions_dynamically w [] = []"
  by (simp add: extract_actions_dynamically_def movement_patterns_def findall_empty_text
      near_body_part_def body_parts_def str_def py_set_iter_empty Let_def)

lemma extract_descriptors_empty: "extract_contextual_descriptors w [] = []"
  by (simp add: extract_contextual_descriptors_def spatial_patterns_def findall_empty_text
      body_parts_def directions_def intensities_def str_def py_set_iter_empty Let_def)

lemma extract_qualifiers_empty: "extract_movement_qualifiers w [] = []"
  by (simp add: extract_movement_qualifiers_def quality_patterns_def comparative_patterns_def
      findall_empty_text py_set_iter_empty Let_def)

lemma extract_empty:
  "extract_semantic_elements w []
     = \<lparr> actions = [], descriptors = [], qualifiers = [], full_text = [] \<rparr>"
  by (simp add: extract_semantic_elements_def py_lower_empty extract_actions_empty
      extract_descriptors_empty extract_qualifiers_empty)

lemma combine_empty:
  "combine_elements w (extract_semantic_elements w []) (extract_semantic_elements w [])
     = no_elements"
  by (simp add: combine_elements_def extract_empty py_set_iter_empty no_elements_def)

lemma py_lower_space: "py_lower U (str '' '') = str '' ''"
  by (simp add: py_lower_def py_lower_at_def str_def is_ascii_upper_def)

lemma count_space: "count_movement_types (str '' '') = 0"
  by (simp add: count_movement_types_eq movement_biometrics_def str_def)

lemma words_space: "findall U False (Seq Bound (Seq (plus WordCh) Bound)) (str '' '') = []"
  by (simp add: findall_def findall_from.simps [of _ _ _ "[32]"] str_def word_boundary_def
      re_word_def is_ascii_lower_def is_ascii_upper_def is_ascii_digit_def)

lemma movement_entropy_space:
  "generate_movement_entropy w (str '' '')
     = (\<lparr> pattern_hash = take 3 (md5_hex w (str ''0'')), complexity = Low,
          movement_types = Some 0, me_signature = Some [] \<rparr>, w)"
proof -
  have "str '' '' \<noteq> []" by (simp add: str_def)
  moreover have "py_str_nat 0 = str ''0''" by (simp add: py_str_nat.simps str_def)
  ultimately show ?thesis
    by (simp add: generate_movement_entropy_def py_lower_space count_space words_space Let_def)
qed

lemma behavioral_space:
  "analyze_behavioral_patterns w (str '' '')
     = \<lparr> complexity_score = str ''0'', bs_signature = Some (str ''GEN''), confidence = Low,
         features_detected = Some 0 \<rparr>"
proof -
  have ne: "str '' '' \<noteq> []" by (simp add: str_def)
  have z: "py_str_nat 0 = str ''0''" by (simp add: py_str_nat.simps str_def)
  have s: "score_indicators (str '' '') inds k t acc = acc"
    if "\<forall>i \<in> set inds. \<not> py_in (str i) (str '' '')" for inds k t acc
    using that unfolding score_indicators_def
    by (induction inds arbitrary: acc) (auto split: prod.splits)
  have a: "\<forall>i \<in> set [''smooth'', ''coordinated'', ''synchronized'', ''balanced'', ''stable''].
      \<not> py_in (str i) (str '' '')" by (simp add: str_def)
  have b: "\<forall>i \<in> set [''quick'', ''slow'', ''vigorous'', ''gentle'', ''explosive'', ''sustained''].
      \<not> py_in (str i) (str '' '')" by (simp add: str_def)
  have c: "\<forall>i \<in> set [''precise'', ''deliberate'', ''controlled'', ''natural'', ''fluid''].
      \<not> py_in (str i) (str '' '')" by (simp add: str_def)
  show ?thesis
    using ne by (simp add: analyze_behavioral_patterns_def Let_def py_lower_space s [OF a] s [OF b]
        s [OF c] py_set_iter_empty z)
qed

section \<open>Library faults are fixed by the environment\<close>

lemma draw_fault: "draw w = (r, w') \<Longrightarrow> fault w' = fault w"
  by (auto simp: draw_def)

lemma token_hex_fault: "token_hex w n = (h, w') \<Longrightarrow> fault w' = fault w"
proof (induction n arbitrary: w h w')
  case 0
  then show ?case by simp
next
  case (Suc n)
  then show ?case
    by (auto split: prod.splits dest: draw_fault)
qed

lemma random_choice_fault: "random_choice w xs = (x, w') \<Longrightarrow> fault w' = fault w"
  by (auto simp: random_choice_def split: prod.splits dest: draw_fault)

lemma random_randint_fault: "random_randint w lo hi = (x, w') \<Longrightarrow> fault w' = fault w"
  by (auto simp: random_randint_def split: prod.splits dest: draw_fault)

lemma datetime_now_fault: "datetime_now w = (t, w') \<Longrightarrow> fault w' = fault w"
  by (auto simp: datetime_now_def)

lemma pad_hex_fault: "pad_hex n pw w = (p, w') \<Longrightarrow> fault w' = fault w"
proof (induction n pw w arbitrary: p w' rule: pad_hex.induct)
  case (1 n pw w)
  show ?case
  proof (cases "length pw < n")
    case True
    obtain h v where tk: "token_hex w 1 = (h, v)" by (cases "token_hex w 1")
    from "1.prems" True tk have "pad_hex n (pw @ h) v = (p, w')"
      by (simp add: pad_hex.simps [of n pw w])
    from "1.IH" [OF True tk [symmetric] this] token_hex_fault [OF tk] show ?thesis by simp
  next
    case False
    with "1.prems" show ?thesis by (simp add: pad_hex.simps [of n pw w])
  qed
qed

lemma ensure_complexity_fault: "ensure_complexity w pw = (p, w') \<Longrightarrow> fault w' = fault w"
  unfolding ensure_complexity_def Let_def
  by (auto split: prod.splits if_splits
      dest!: pad_hex_fault random_choice_fault random_randint_fault)

lemma ensure_advanced_complexity_fault:
  "ensure_advanced_complexity w pw cm = (p, w') \<Longrightarrow> fault w' = fault w"
  unfolding ensure_advanced_complexity_def Let_def
  by (auto split: prod.splits if_splits
      dest!: pad_hex_fault random_choice_fault ensure_complexity_fault)

section \<open>The run on empty inputs\<close>

lemma modifiers_space:
  assumes "generate_contextual_modifiers w (str '' '') = (cm, w1)"
  shows "movement_entropy cm
           = \<lparr> pattern_hash = take 3 (md5_hex w (str ''0'')), complexity = Low,
               movement_types = Some 0, me_signature = Some [] \<rparr>
     \<and> behavioral_signature cm
           = \<lparr> complexity_score = str ''0'', bs_signature = Some (str ''GEN''),
               confidence = Low, features_detected = Some 0 \<rparr>
     \<and> fault w1 = fault w"
proof -
  obtain t v where t: "token_hex (w\<lparr>ticks := Suc (ticks w)\<rparr>) 3 = (t, v)"
    by (cases "token_hex (w\<lparr>ticks := Suc (ticks w)\<rparr>) 3")
  from token_hex_fault [OF t] have "fault v = fault w" by simp
  with assms t show ?thesis
    by (auto simp: generate_contextual_modifiers_def Let_def movement_entropy_space
        behavioral_space datetime_now_def)
qed

lemma assemble_components_blank:
  assumes "behavioral_signature cm
           = \<lparr> complexity_score = str ''0'', bs_signature = Some (str ''GEN''),
               confidence = Low, features_detected = Some 0 \<rparr>"
  shows "\<exists>template comps w'. assemble_components w no_elements cm = (Inr (template, comps), w')
           \<and> map_of comps (str ''action'') = Some (str ''m'' @ [920] @ str ''v'')
           \<and> map_of comps (str ''modifier'') = Some (str ''d'' @ [936] @ str ''n'')
           \<and> fault w' = fault w"
proof -
  have ne: "str ''0'' @ str ''GEN'' \<noteq> []" by (simp add: str_def)
  have d: "extract_multi_source_descriptor v no_elements = (str ''d'' @ [936] @ str ''n'', v)"
    for v by (simp add: extract_multi_source_descriptor_def no_elements_def)
  have b: "generate_biometric_hash w no_elements (behavioral_signature cm)
      = (Inr (take 6 (sha256_hex w (str ''0'' @ str ''GEN''))), w)"
    using ne by (simp add: generate_biometric_hash_def no_elements_def assms)
  obtain t1 w4 where t1: "token_hex w 2 = (t1, w4)" by (cases "token_hex w 2")
  obtain t2 w5 where t2: "token_hex w4
      (if complexity (movement_entropy cm) = High then 3
       else if complexity (movement_entropy cm) = Medium then 2 else 1) = (t2, w5)"
    by (cases "token_hex w4 (if complexity (movement_entropy cm) = High then 3
       else if complexity (movement_entropy cm) = Medium then 2 else 1)")
  obtain t w6 where s: "select_security_optimal_template w5 no_elements cm = (t, w6)"
    by (cases "select_security_optimal_template w5 no_elements cm")
  have "fault w6 = fault w5"
    using s by (auto simp: select_security_optimal_template_def Let_def
        dest: random_choice_fault)
  with token_hex_fault [OF t1] token_hex_fault [OF t2] have f: "fault w6 = fault w" by simp
  have n: "actions no_elements = []" by (simp add: no_elements_def)
  have "assemble_components w no_elements cm
      = (Inr (t, password_components [] (str ''d'' @ [936] @ str ''n'')
            (take 6 (sha256_hex w (str ''0'' @ str ''GEN''))) (temporal cm)
            (compound_modifier cm) (str ''GEN'') t2
            (create_advanced_movement_signature w no_elements cm)), w6)"
    using t1 t2 s by (simp add: assemble_components_def b [unfolded assms] d n Let_def assms)
  moreover have "map_of (password_components [] dd bb tt ee hh rr ss) (str ''action'')
      = Some (str ''m'' @ [920] @ str ''v'')
    \<and> map_of (password_components [] dd bb tt ee hh rr ss) (str ''modifier'') = Some dd"
    for dd bb tt ee hh rr ss
    by (simp add: password_components_def str_def)
  ultimately show ?thesis using f by auto
qed


lemma empty_inputs_run:
  assumes "fault w = (\<lambda>s. None)"
  shows "\<exists>cm w1 template comps w2 pw p w3.
     generate_contextual_modifiers w (str '' '') = (cm, w1)
     \<and> assemble_components w1 no_elements cm = (Inr (template, comps), w2)
     \<and> map_of comps (str ''action'') = Some (str ''m'' @ [920] @ str ''v'')
     \<and> map_of comps (str ''modifier'') = Some (str ''d'' @ [936] @ str ''n'')
     \<and> dynamic_password_assembly w2 template comps = (Inr pw, w2)
     \<and> ensure_advanced_complexity w2 pw cm = (p, w3)
     \<and> generate_password_try w [] []
         = (Inr \<lparr> password = p,
                  components = Generation_details no_elements cm
                    (analyze_extraction_effectiveness (str '' '') no_elements),
                  strength = sr_strength (assess_password_strength w3 p (Some cm)),
                  strength_analysis = Some (assess_password_strength w3 p (Some cm)),
                  generation_method = Advanced_biometric_extraction,
                  security_features = Some (get_security_features_summary cm) \<rparr>, w3)"
proof -
  obtain cm w1 where g: "generate_contextual_modifiers w (str '' '') = (cm, w1)"
    by (cases "generate_contextual_modifiers w (str '' '')")
  from modifiers_space [OF g] have
    bs: "behavioral_signature cm
           = \<lparr> complexity_score = str ''0'', bs_signature = Some (str ''GEN''),
               confidence = Low, features_detected = Some 0 \<rparr>"
    and f1: "fault w1 = fault w" by simp_all
  from assemble_components_blank [OF bs, of w1] obtain template comps w2 where
    a: "assemble_components w1 no_elements cm = (Inr (template, comps), w2)"
    and ma: "map_of comps (str ''action'') = Some (str ''m'' @ [920] @ str ''v'')"
    and mm: "map_of comps (str ''modifier'') = Some (str ''d'' @ [936] @ str ''n'')"
    and f2: "fault w2 = fault w1" by blast
  from assemble_components_shape [OF a] obtain a' d b t e bh r s where
    t: "template \<in> set (high_security_templates @ medium_security_templates)" and
    c: "comps = password_components a' d b t e bh r s"
    by blast
  from template_renders [OF t, of a' d b t e bh r s] c obtain pw where
    "py_format template comps = Inr pw" by blast
  then have dy: "dynamic_password_assembly w2 template comps = (Inr pw, w2)"
    by (simp add: dynamic_password_assembly_def)
  obtain p w3 where ea: "ensure_advanced_complexity w2 pw cm = (p, w3)"
    by (cases "ensure_advanced_complexity w2 pw cm")
  from ensure_advanced_complexity_fault [OF ea] f1 f2 assms
  have f3: "fault w3 = (\<lambda>s. None)" and f1': "fault w1 = (\<lambda>s. None)" by simp_all
  have ap: "assemble_password w1 no_elements cm = (Inr p, w3)"
    by (simp add: assemble_password_def a dy ea)
  have ft: "full_text no_elements = str '' ''" by (simp add: no_elements_def)
  have "generate_password_try w [] []
         = (Inr \<lparr> password = p,
                  components = Generation_details no_elements cm
                    (analyze_extraction_effectiveness (str '' '') no_elements),
                  strength = sr_strength (assess_password_strength w3 p (Some cm)),
                  strength_analysis = Some (assess_password_strength w3 p (Some cm)),
                  generation_method = Advanced_biometric_extraction,
                  security_features = Some (get_security_features_summary cm) \<rparr>, w3)"
    by (simp add: generate_password_try_def attempt_def assms combine_empty ft g f1' ap f3
        Let_def)
  with g a ma mm dy ea show ?thesis by blast
qed


lemma gcm_example:
  "generate_contextual_modifiers example_world (str '' '')
     = (blank_modifiers, example_world\<lparr>ticks := 1, cursor := 3\<rparr>)"
proof -
  have z: "py_str_nat 0 = str ''0''" by (simp add: py_str_nat.simps str_def)
  have t: "token_hex (example_world\<lparr>ticks := Suc (ticks example_world)\<rparr>) 3
      = (str ''000000'', example_world\<lparr>ticks := 1, cursor := 3\<rparr>)"
    by (simp add: numeral_3_eq_3 draw_def example_world_def hex_byte_def hex_digit_def str_def)
  show ?thesis
    by (simp add: generate_contextual_modifiers_def Let_def datetime_now_def
        movement_entropy_space behavioral_space t)
      (simp add: example_world_def blank_modifiers_def temporal_context_of_def datetime_of_def
        z slice_def str_def)
qed

lemma empty_inputs_example:
  "\<exists>p ea w'. generate_password example_world [] []
      = (\<lparr> password = p, components = Generation_details no_elements blank_modifiers ea,
            strength = sr_strength (assess_password_strength w' p (Some blank_modifiers)),
            strength_analysis = Some (assess_password_strength w' p (Some blank_modifiers)),
            generation_method = Advanced_biometric_extraction,
            security_features = Some (get_security_features_summary blank_modifiers) \<rparr>, w')"
proof -
  have "fault example_world = (\<lambda>s. None)" by (simp add: example_world_def)
  from empty_inputs_run [OF this] show ?thesis
    by (auto simp: gcm_example generate_password_def)
qed

text \<open>
  C5, as stated: with both inputs empty, the modifier generator takes its empty-text
  branches. It does not: the merged text is the single space that joins the two empty
  texts, so the movement entropy and the behavioral signature in the result are those of
  the ordinary branches (they have the entries \<open>movement_types\<close>, \<open>signature\<close> and
  \<open>features_detected\<close>, and a pattern hash of three characters taken from a digest),
  not the ones that \<open>_generate_movement_entropy\<close> and \<open>_analyze_behavioral_patterns\<close>
  return for an empty text.
\<close>

theorem empty_inputs_take_ordinary_branches:
  "map_option full_text
       (semantic_elements_of (components (fst (generate_password example_world [] []))))
     = Some (str '' '')
   \<and> map_option movement_entropy
       (contextual_modifiers_of (components (fst (generate_password example_world [] []))))
     = Some \<lparr> pattern_hash = str ''098'', complexity = Low, movement_types = Some 0,
              me_signature = Some [] \<rparr>
   \<and> fst (generate_movement_entropy example_world [])
     = \<lparr> pattern_hash = str ''0000'', complexity = Low, movement_types = None,
         me_signature = None \<rparr>
   \<and> map_option behavioral_signature
       (contextual_modifiers_of (components (fst (generate_password example_world [] []))))
     = Some \<lparr> complexity_score = str ''0'', bs_signature = Some (str ''GEN''),
              confidence = Low, features_detected = Some 0 \<rparr>
   \<and> analyze_behavioral_patterns example_world []
     = \<lparr> complexity_score = str ''0'', bs_signature = None, confidence = Low,
         features_detected = None \<rparr>"
proof -
  have e: "fst (generate_movement_entropy example_world [])
     = \<lparr> pattern_hash = str ''0000'', complexity = Low, movement_types = None,
         me_signature = None \<rparr>"
    by (simp add: generate_movement_entropy_def numeral_2_eq_2 draw_def example_world_def
        hex_byte_def hex_digit_def str_def)
  have b: "analyze_behavioral_patterns example_world []
     = \<lparr> complexity_score = str ''0'', bs_signature = None, confidence = Low,
         features_detected = None \<rparr>"
    by (simp add: analyze_behavioral_patterns_def)
  from empty_inputs_example e b show ?thesis
    by (auto simp: no_elements_def blank_modifiers_def)
qed


text \<open>
  C5, amended. When both inputs are empty and no library call raises, each extraction
  yields no actions, no descriptors and no qualifiers, and \<open>generate_password\<close> returns
  from its \<open>try\<close> block, without an exception: the result has the generation method
  \<open>advanced_biometric_extraction\<close>, a password of 12 to 24 characters, a strength
  analysis and a list of security features. The merged text is a single space, so the
  modifier generator runs its ordinary branches on it: no movement type, complexity
  \<open>low\<close>, an empty entropy signature, the score \<open>0\<close>, the signature \<open>GEN\<close> and confidence
  \<open>low\<close>. The assembler takes its fallbacks for the action and for the descriptor.
\<close>

theorem empty_inputs:
  assumes "fault w = (\<lambda>s. None)"
  shows "extract_semantic_elements w []
       = \<lparr> actions = [], descriptors = [], qualifiers = [], full_text = [] \<rparr>
    \<and> fst (generate_password_try w [] []) = Inr (fst (generate_password w [] []))
    \<and> generation_method (fst (generate_password w [] [])) = Advanced_biometric_extraction
    \<and> 12 \<le> length (password (fst (generate_password w [] [])))
    \<and> length (password (fst (generate_password w [] []))) \<le> 24
    \<and> strength_analysis (fst (generate_password w [] [])) \<noteq> None
    \<and> security_features (fst (generate_password w [] [])) \<noteq> None
    \<and> semantic_elements_of (components (fst (generate_password w [] [])))
        = Some \<lparr> actions = [], descriptors = [], qualifiers = [], full_text = str '' '' \<rparr>
    \<and> contextual_modifiers_of (components (fst (generate_password w [] [])))
        = Some (fst (generate_contextual_modifiers w (str '' '')))
    \<and> movement_entropy (fst (generate_contextual_modifiers w (str '' '')))
        = \<lparr> pattern_hash = take 3 (md5_hex w (str ''0'')), complexity = Low,
            movement_types = Some 0, me_signature = Some [] \<rparr>
    \<and> behavioral_signature (fst (generate_contextual_modifiers w (str '' '')))
        = \<lparr> complexity_score = str ''0'', bs_signature = Some (str ''GEN''),
            confidence = Low, features_detected = Some 0 \<rparr>
    \<and> \<not> isl (fst (assemble_components (snd (generate_contextual_modifiers w (str '' '')))
                no_elements (fst (generate_contextual_modifiers w (str '' '')))))
    \<and> map_of (snd (projr (fst (assemble_components
                (snd (generate_contextual_modifiers w (str '' '')))
                no_elements (fst (generate_contextual_modifiers w (str '' '')))))))
          (str ''action'') = Some (str ''m'' @ [920] @ str ''v'')
    \<and> map_of (snd (projr (fst (assemble_components
                (snd (generate_contextual_modifiers w (str '' '')))
                no_elements (fst (generate_contextual_modifiers w (str '' '')))))))
          (str ''modifier'') = Some (str ''d'' @ [936] @ str ''n'')
    \<and> fst (assemble_password (snd (generate_contextual_modifiers w (str '' '')))
             no_elements (fst (generate_contextual_modifiers w (str '' ''))))
        = Inr (password (fst (generate_password w [] [])))"
proof -
  from empty_inputs_run [OF assms] obtain cm w1 template comps w2 pw p w3 where
    g: "generate_contextual_modifiers w (str '' '') = (cm, w1)" and
    a: "assemble_components w1 no_elements cm = (Inr (template, comps), w2)" and
    ma: "map_of comps (str ''action'') = Some (str ''m'' @ [920] @ str ''v'')" and
    mm: "map_of comps (str ''modifier'') = Some (str ''d'' @ [936] @ str ''n'')" and
    dy: "dynamic_password_assembly w2 template comps = (Inr pw, w2)" and
    ea: "ensure_advanced_complexity w2 pw cm = (p, w3)" and
    t: "generate_password_try w [] []
         = (Inr \<lparr> password = p,
                  components = Generation_details no_elements cm
                    (analyze_extraction_effectiveness (str '' '') no_elements),
                  strength = sr_strength (assess_password_strength w3 p (Some cm)),
                  strength_analysis = Some (assess_password_strength w3 p (Some cm)),
                  generation_method = Advanced_biometric_extraction,
                  security_features = Some (get_security_features_summary cm) \<rparr>, w3)"
    by blast
  have gp: "generate_password w [] []
         = (\<lparr> password = p,
              components = Generation_details no_elements cm
                (analyze_extraction_effectiveness (str '' '') no_elements),
              strength = sr_strength (assess_password_strength w3 p (Some cm)),
              strength_analysis = Some (assess_password_strength w3 p (Some cm)),
              generation_method = Advanced_biometric_extraction,
              security_features = Some (get_security_features_summary cm) \<rparr>, w3)"
    by (simp add: generate_password_def t)
  have ap: "assemble_password w1 no_elements cm = (Inr p, w3)"
    by (simp add: assemble_password_def a dy ea)
  have len: "12 \<le> length p \<and> length p \<le> 24"
    using ensure_advanced_complexity_length [of w2 pw cm] ea by simp
  from modifiers_space [OF g] len show ?thesis
    by (simp add: extract_empty gp t g a ma mm ap) (simp add: no_elements_def)
qed

theorem empty_inputs_witness:
  "fault example_world = (\<lambda>s. None)
   \<and> fst (generate_password_try example_world [] [])
       = Inr (fst (generate_password example_world [] []))
   \<and> generation_method (fst (generate_password example_world [] []))
       = Advanced_biometric_extraction
   \<and> semantic_elements_of (components (fst (generate_password example_world [] [])))
       = Some \<lparr> actions = [], descriptors = [], qualifiers = [], full_text = str '' '' \<rparr>
   \<and> contextual_modifiers_of (components (fst (generate_password example_world [] [])))
       = Some blank_modifiers
   \<and> password (fst (generate_password example_world [] []))
       = str ''M'' @ [920] @ str ''v_d'' @ [936] @ str ''n_9f86_00''"
proof -
  have h: "fault example_world = (\<lambda>s. None)" by (simp add: example_world_def)
  have p: "fst (assemble_password (example_world\<lparr>ticks := 1, cursor := 3\<rparr>) no_elements
             blank_modifiers)
      = Inr (str ''M'' @ [920] @ str ''v_d'' @ [936] @ str ''n_9f86_00'')"
    by code_simp
  from empty_inputs [OF h] h p show ?thesis
    by (simp add: gcm_example)
qed

section \<open>The merge of the two extractions\<close>

lemma combine_elements_caps:
  "length (actions (combine_elements w summary_elements analysis_elements)) \<le> 3
   \<and> length (descriptors (combine_elements w summary_elements analysis_elements)) \<le> 3
   \<and> length (qualifiers (combine_elements w summary_elements analysis_elements)) \<le> 2
   \<and> distinct (actions (combine_elements w summary_elements analysis_elements))
   \<and> distinct (descriptors (combine_elements w summary_elements analysis_elements))
   \<and> distinct (qualifiers (combine_elements w summary_elements analysis_elements))
   \<and> set (actions (combine_elements w summary_elements analysis_elements))
       \<subseteq> set (actions summary_elements) \<union> set (actions analysis_elements)
   \<and> full_text (combine_elements w summary_elements analysis_elements)
       = full_text summary_elements @ str '' '' @ full_text analysis_elements"
proof -
  have "set (take n (py_set_iter w xs)) \<subseteq> set xs" for n xs
    using set_take_subset [of n "py_set_iter w xs"] by (simp add: py_set_iter_def)
  from this [of 3 "actions summary_elements @ actions analysis_elements"] show ?thesis
    by (simp add: combine_elements_def py_set_iter_def)
qed

text \<open>
  C3. The merge is to give the entries of the summary priority: the comment in the code
  says so for the actions. It does not. The union is a \<open>set\<close>, whose iteration order is
  not the order of insertion, and the cap to three entries is applied to that order.
  With the summary \<open>walking\<close> and the analysis \<open>running jumping turning\<close>, in an
  environment where the set yields \<open>walking\<close> last, the merged actions are the three
  actions of the analysis and the action of the summary is lost; with the analysis
  \<open>running\<close>, the action of the analysis comes first.
\<close>

theorem merge_loses_summary_priority:
  "extract_semantic_elements ranking_world (str ''walking'')
     = \<lparr> actions = [str ''walking''], descriptors = [], qualifiers = [],
         full_text = str ''walking'' \<rparr>
   \<and> extract_semantic_elements ranking_world (str ''running jumping turning'')
     = \<lparr> actions = [str ''running'', str ''jumping'', str ''turning''], descriptors = [],
         qualifiers = [], full_text = str ''running jumping turning'' \<rparr>
   \<and> actions (combine_elements ranking_world
        (extract_semantic_elements ranking_world (str ''walking''))
        (extract_semantic_elements ranking_world (str ''running jumping turning'')))
     = [str ''running'', str ''jumping'', str ''turning'']
   \<and> actions (extract_semantic_elements ranking_world (str ''running'')) = [str ''running'']
   \<and> actions (combine_elements ranking_world
        (extract_semantic_elements ranking_world (str ''walking''))
        (extract_semantic_elements ranking_world (str ''running'')))
     = [str ''running'', str ''walking'']"
proof -
  have s: "extract_semantic_elements ranking_world (str ''walking'')
     = \<lparr> actions = [str ''walking''], descriptors = [], qualifiers = [],
         full_text = str ''walking'' \<rparr>"
    by code_simp
  have a: "extract_semantic_elements ranking_world (str ''running jumping turning'')
     = \<lparr> actions = [str ''running'', str ''jumping'', str ''turning''], descriptors = [],
         qualifiers = [], full_text = str ''running jumping turning'' \<rparr>"
    by code_simp
  have b: "extract_semantic_elements ranking_world (str ''running'')
     = \<lparr> actions = [str ''running''], descriptors = [], qualifiers = [],
         full_text = str ''running'' \<rparr>"
    by code_simp
  have m: "actions (combine_elements ranking_world
      \<lparr> actions = [str ''walking''], descriptors = [], qualifiers = [],
        full_text = str ''walking'' \<rparr>
      \<lparr> actions = [str ''running'', str ''jumping'', str ''turning''], descriptors = [],
        qualifiers = [], full_text = str ''running jumping turning'' \<rparr>)
     = [str ''running'', str ''jumping'', str ''turning'']"
    by code_simp
  have n: "actions (combine_elements ranking_world
      \<lparr> actions = [str ''walking''], descriptors = [], qualifiers = [],
        full_text = str ''walking'' \<rparr>
      \<lparr> actions = [str ''running''], descriptors = [], qualifiers = [],
        full_text = str ''running'' \<rparr>)
     = [str ''running'', str ''walking'']"
    by code_simp
  from m n show ?thesis by (simp only: s a b) simp
qed

end
